theory Spec2Isabelle
  imports Complex_Main
begin

section \<open>The Lightning module of bigearthnet: data\<close>

text \<open>
  The development embeds \<^verbatim>\<open>src/bigearthnet/pl_modules/lightning_module.py\<close>, the class
  \<^verbatim>\<open>LitModel\<close>. Scalars (losses, metric values, logits) are Python and torch floats; they
  are embedded as \<^typ>\<open>real\<close>, so rounding, infinities and NaN are outside the embedding.
  Exceptions are values of a sum type, with \<open>Inl\<close> for the exception. A function that only
  computes returns \<open>error + 'a\<close>. A method that changes the module returns
  \<open>(error \<times> lit_model) + 'a\<close>: the exception together with the module as it is when the
  exception leaves the method, since what was sent or set before stays sent and set.
\<close>

datatype error =
  AssertionError | AttributeError | KeyError | TypeError | ValueError | ZeroDivisionError

text \<open>What a Python call returns when the claim is about the returned object.\<close>

datatype py_value = PyNone | PyBool bool

definition bind_err :: "'e + 'a \<Rightarrow> ('a \<Rightarrow> 'e + 'b) \<Rightarrow> 'e + 'b" where
  "bind_err x f = (case x of Inl e \<Rightarrow> Inl e | Inr v \<Rightarrow> f v)"

text \<open>A confusion matrix is the 2 x 2 array \<open>[[tn, fp], [fn, tp]]\<close> of sklearn.\<close>

type_synonym conf_mat = "nat list list"

text \<open>
  One line of sklearn's classification report: the name with its precision, recall, F1
  and support. The library renders these lines as text; the embedding keeps the numbers.
\<close>

record report_row =
  row_label :: string
  row_precision :: real
  row_recall :: real
  row_f1 :: real
  row_support :: nat

text \<open>The dictionary \<^verbatim>\<open>metrics\<close> built by \<^verbatim>\<open>_generic_epoch_end\<close>, one field per key.\<close>

record metrics =
  precision :: real
  recall :: real
  f1_score :: real
  conf_mats :: "conf_mat list"
  report :: "report_row list"
  loss :: real

text \<open>
  \<^verbatim>\<open>metrics[name]\<close> where \<^verbatim>\<open>update_best_metric\<close> needs a scalar. A key that is not in the
  dictionary is the \<^verbatim>\<open>KeyError\<close> of the lookup. The keys \<^verbatim>\<open>conf_mats\<close> and \<^verbatim>\<open>report\<close> are in the
  dictionary but hold an array and a string: the comparison of the string with a number
  is a \<^verbatim>\<open>TypeError\<close>, and the comparison of the array gives an array, whose truth value
  Python refuses with a \<^verbatim>\<open>ValueError\<close>.
\<close>

definition metrics_get :: "metrics \<Rightarrow> string \<Rightarrow> error + real" where
  "metrics_get m k =
     (if k = ''precision'' then Inr (precision m)
      else if k = ''recall'' then Inr (recall m)
      else if k = ''f1_score'' then Inr (f1_score m)
      else if k = ''loss'' then Inr (loss m)
      else if k = ''conf_mats'' then Inl ValueError
      else if k = ''report'' then Inl TypeError
      else Inl KeyError)"

text \<open>One axes object of the matplotlib figure, as far as \<^verbatim>\<open>log_metrics\<close> touches it.\<close>

record axes =
  axis_on :: bool
  image :: "conf_mat option"
  colorbar :: bool
  title :: string

text \<open>The three messages \<^verbatim>\<open>log_metrics\<close> sends to the Python logger.\<close>

datatype info =
    InfoEpoch string nat
  | InfoReport string "report_row list"
  | InfoConfMats string "(string \<times> conf_mat) list"

text \<open>
  The module's own attributes (\<^verbatim>\<open>cfg.monitor\<close>, \<^verbatim>\<open>best_metric\<close>, \<^verbatim>\<open>class_names\<close>; the last
  two do not exist before \<^verbatim>\<open>on_train_start\<close>, which is \<open>None\<close> here), what it reads from the
  trainer, and what has gone out: the scalars that \<^verbatim>\<open>self.log\<close> passes on, and the calls of
  \<^verbatim>\<open>logger.log_hyperparams\<close>, of \<^verbatim>\<open>add_figure\<close> and of \<^verbatim>\<open>log.info\<close>, each in call order.
\<close>

record lit_model =
  monitor_mode :: string
  monitor_name :: string
  best_metric :: "real option"
  class_names :: "string list option"
  dataset_class_names :: "string list"
  sanity_checking :: bool
  current_epoch :: nat
  global_step :: nat
  logged :: "(string \<times> real) list"
  hyperparams :: "(string \<times> real) list list"
  figures :: "(string \<times> axes list \<times> nat) list"
  infos :: "info list"

text \<open>
  The module as \<^verbatim>\<open>__init__\<close> leaves it, for a monitor configuration and the class names
  of the training dataset: nothing sent yet, \<^verbatim>\<open>best_metric\<close> and \<^verbatim>\<open>class_names\<close> not set.
\<close>

definition lit_model_init :: "string \<Rightarrow> string \<Rightarrow> string list \<Rightarrow> lit_model" where
  "lit_model_init mode name names =
     \<lparr>monitor_mode = mode, monitor_name = name, best_metric = None, class_names = None,
      dataset_class_names = names, sanity_checking = False, current_epoch = 0,
      global_step = 0, logged = [], hyperparams = [], figures = [], infos = []\<rparr>"

text \<open>An exception of a computation that does not touch the module, raised in state \<open>s\<close>.\<close>

definition raise_at :: "lit_model \<Rightarrow> error + 'a \<Rightarrow> (error \<times> lit_model) + 'a" where
  "raise_at s x = (case x of Inl e \<Rightarrow> Inl (e, s) | Inr v \<Rightarrow> Inr v)"

text \<open>
  \<^verbatim>\<open>self.log(name, value, ...)\<close> belongs to pytorch_lightning, which is not part of the
  repository. Modelled from pytorch_lightning 1.x: the value goes to the trainer's logger
  connector, and the connector sends nothing to the logger while
  \<^verbatim>\<open>trainer.sanity_checking\<close> is set; what is logged during the sanity pass is discarded.
\<close>

definition self_log :: "lit_model \<Rightarrow> string \<Rightarrow> real \<Rightarrow> lit_model" where
  "self_log s name v =
     (if sanity_checking s then s else s\<lparr>logged := logged s @ [(name, v)]\<rparr>)"

section \<open>Best-metric tracking\<close>

definition init_metrics :: "(string \<times> real) list" where
  "init_metrics =
     [(''best_metrics/loss'', 99999),
      (''best_metrics/precision'', 0),
      (''best_metrics/recall'', 0),
      (''best_metrics/f1_score'', 0)]"

definition on_train_start :: "lit_model \<Rightarrow> (error \<times> lit_model) + lit_model" where
  "on_train_start s =
     (let mode = monitor_mode s; name = monitor_name s in
      if mode \<notin> set [''min'', ''max''] then Inl (AssertionError, s)
      else if name \<notin> set [''loss'', ''precision'', ''recall'', ''f1_score'']
      then Inl (AssertionError, s)
      else
        (let s1 = s\<lparr>hyperparams := hyperparams s @ [init_metrics]\<rparr> in
         case map_of init_metrics (''best_metrics/'' @ name) of
           None \<Rightarrow> Inl (KeyError, s1)
         | Some b \<Rightarrow>
             Inr (s1\<lparr>best_metric := Some b,
                     class_names := Some (dataset_class_names s1)\<rparr>)))"

text \<open>\<^verbatim>\<open>self.best_metric\<close>: the attribute is missing until \<^verbatim>\<open>on_train_start\<close> has run.\<close>

definition get_best_metric :: "lit_model \<Rightarrow> error + real" where
  "get_best_metric s = (case best_metric s of None \<Rightarrow> Inl AttributeError | Some b \<Rightarrow> Inr b)"

text \<open>
  \<^verbatim>\<open>metrics[name] < self.best_metric\<close> and \<^verbatim>\<open>metrics[name] > self.best_metric\<close>, with \<open>cmp\<close>
  for the comparison: first the lookup, then the attribute, then the comparison.
\<close>

definition compare_with_best ::
    "(real \<Rightarrow> real \<Rightarrow> bool) \<Rightarrow> lit_model \<Rightarrow> metrics \<Rightarrow> string \<Rightarrow> error + bool" where
  "compare_with_best cmp s m name =
     (case metrics_get m name of
        Inl KeyError \<Rightarrow> Inl KeyError
      | item \<Rightarrow>
          bind_err (get_best_metric s) (\<lambda>b.
          bind_err item (\<lambda>v. Inr (cmp v b))))"

text \<open>The dictionary comprehension sent to \<^verbatim>\<open>log_hyperparams\<close> on an update.\<close>

definition best_record :: "metrics \<Rightarrow> (string \<times> real) list" where
  "best_record m =
     [(''best_metrics/loss'', loss m),
      (''best_metrics/precision'', precision m),
      (''best_metrics/recall'', recall m),
      (''best_metrics/f1_score'', f1_score m)]"

text \<open>
  \<^verbatim>\<open>update_best_metric\<close>. Python's \<^verbatim>\<open>and\<close> evaluates its right operand only when the
  left one holds, so \<^verbatim>\<open>metrics[name]\<close> and \<^verbatim>\<open>self.best_metric\<close> are read only under the
  matching mode. The function has no \<^verbatim>\<open>return\<close> statement: the call yields \<^verbatim>\<open>None\<close>.
\<close>

definition update_best_metric ::
    "lit_model \<Rightarrow> metrics \<Rightarrow> (error \<times> lit_model) + (py_value \<times> lit_model)" where
  "update_best_metric s m =
     (let mode = monitor_mode s; name = monitor_name s in
      bind_err
        (if mode = ''min''
         then raise_at s (compare_with_best (\<lambda>v b. v < b) s m name)
         else Inr False) (\<lambda>update_min.
      bind_err
        (if mode = ''max''
         then raise_at s (compare_with_best (\<lambda>v b. v > b) s m name)
         else Inr False) (\<lambda>update_max.
      if update_min \<or> update_max
      then bind_err (raise_at s (metrics_get m name)) (\<lambda>v.
             Inr (PyNone,
                  s\<lparr>hyperparams := hyperparams s @ [best_record m],
                    best_metric := Some v\<rparr>))
      else Inr (PyNone, s))))"

text \<open>
  One call of \<^verbatim>\<open>update_best_metric\<close> per validation epoch, in order; an exception ends
  the run.
\<close>

fun update_best_metric_seq ::
    "lit_model \<Rightarrow> metrics list \<Rightarrow> (error \<times> lit_model) + lit_model" where
  "update_best_metric_seq s [] = Inr s"
| "update_best_metric_seq s (m # ms) =
     (case update_best_metric s m of
        Inl e \<Rightarrow> Inl e
      | Inr (r, s') \<Rightarrow> update_best_metric_seq s' ms)"

text \<open>\<^verbatim>\<open>on_train_start\<close> followed by the validation epochs of the run.\<close>

definition train_then_validate ::
    "lit_model \<Rightarrow> metrics list \<Rightarrow> (error \<times> lit_model) + lit_model" where
  "train_then_validate s ms = bind_err (on_train_start s) (\<lambda>s1. update_best_metric_seq s1 ms)"

section \<open>Steps\<close>

text \<open>
  A batch carries the input tensor (any type \<open>'x\<close>) and the label matrix, one row per
  sample and one 0/1 entry per class. The network \<^verbatim>\<open>self.model\<close> and the loss
  \<^verbatim>\<open>self.loss_fn\<close> (torch's \<^verbatim>\<open>BCEWithLogitsLoss\<close>) belong to torch; the steps take them as
  the functions \<open>model\<close> and \<open>loss_fn\<close>.
\<close>

record 'x batch =
  data :: 'x
  labels :: "bool list list"

record step_output =
  out_loss :: real
  out_targets :: "bool list list"
  out_logits :: "real list list"

definition sigmoid :: "real \<Rightarrow> real" where
  "sigmoid x = 1 / (1 + exp (- x))"

text \<open>
  \<^verbatim>\<open>BCEWithLogitsLoss\<close> with its default mean reduction, over the reals, for a logit matrix
  and a label matrix of the same shape with at least one entry: the mean over all entries
  of \<open>- ln (sigmoid x)\<close> where the label is 1 and \<open>- ln (1 - sigmoid x)\<close> where it is 0.
\<close>

definition bce_with_logits :: "real list list \<Rightarrow> bool list list \<Rightarrow> real" where
  "bce_with_logits logits targets =
     (let terms = concat (map2 (map2 (\<lambda>x t. - (if t then ln (sigmoid x) else ln (1 - sigmoid x))))
                    logits targets)
      in sum_list terms / real (length terms))"

definition generic_step ::
    "('x \<Rightarrow> real list list) \<Rightarrow> (real list list \<Rightarrow> bool list list \<Rightarrow> real) \<Rightarrow> 'x batch
      \<Rightarrow> step_output" where
  "generic_step model loss_fn b =
     (let inputs = data b;
          targets = labels b;
          logits = model inputs;
          l = loss_fn logits targets
      in \<lparr>out_loss = l, out_targets = targets, out_logits = logits\<rparr>)"

definition training_step ::
    "('x \<Rightarrow> real list list) \<Rightarrow> (real list list \<Rightarrow> bool list list \<Rightarrow> real) \<Rightarrow> lit_model
      \<Rightarrow> 'x batch \<Rightarrow> step_output \<times> lit_model" where
  "training_step model loss_fn s b =
     (let outputs = generic_step model loss_fn b
      in (outputs, self_log s ''loss/train'' (out_loss outputs)))"

definition validation_step ::
    "('x \<Rightarrow> real list list) \<Rightarrow> (real list list \<Rightarrow> bool list list \<Rightarrow> real) \<Rightarrow> lit_model
      \<Rightarrow> 'x batch \<Rightarrow> step_output \<times> lit_model" where
  "validation_step model loss_fn s b =
     (let outputs = generic_step model loss_fn b
      in (outputs, self_log s ''loss/val'' (out_loss outputs)))"

definition test_step ::
    "('x \<Rightarrow> real list list) \<Rightarrow> (real list list \<Rightarrow> bool list list \<Rightarrow> real) \<Rightarrow> lit_model
      \<Rightarrow> 'x batch \<Rightarrow> step_output \<times> lit_model" where
  "test_step model loss_fn s b = (generic_step model loss_fn b, s)"

section \<open>The sklearn metrics\<close>

text \<open>
  \<^verbatim>\<open>_generic_epoch_end\<close> calls three functions of sklearn on the list of label rows and
  the list of prediction rows. sklearn belongs to no file of the repository; the three
  functions are embedded as sklearn computes them on lists of 0/1 rows.

  sklearn first decides what kind of target it has. Rows of two or more columns are a
  multilabel indicator matrix, with one label per column. Rows of one column are a
  binary target: the column is flattened and the labels are the values (0, 1) that occur
  in it. No rows at all are a binary target without labels. Rows without columns, rows of
  unequal length, and targets and predictions that differ in the number of rows or of
  columns are rejected with \<^verbatim>\<open>ValueError\<close>.
\<close>

datatype target_type = Binary | MultilabelIndicator nat

definition check_targets :: "bool list list \<Rightarrow> bool list list \<Rightarrow> error + target_type" where
  "check_targets y_true y_pred =
     (if length y_true \<noteq> length y_pred then Inl ValueError
      else case y_true of
        [] \<Rightarrow> Inr Binary
      | row # _ \<Rightarrow>
          (let c = length row in
           if \<not> (list_all (\<lambda>r. length r = c) y_true \<and> list_all (\<lambda>r. length r = c) y_pred)
           then Inl ValueError
           else if c = 0 then Inl ValueError
           else if c = 1 then Inr Binary
           else Inr (MultilabelIndicator c)))"

text \<open>
  Multilabel indicator, per label column: true positives, predicted positives, actual
  positives (sklearn's \<^verbatim>\<open>tp_sum\<close>, \<^verbatim>\<open>pred_sum\<close>, \<^verbatim>\<open>true_sum\<close>; HOL has a constant \<open>pred_sum\<close>
  already).
\<close>

definition tp_sum :: "bool list list \<Rightarrow> bool list list \<Rightarrow> nat \<Rightarrow> nat" where
  "tp_sum y_true y_pred j = length (filter (\<lambda>(t, p). t ! j \<and> p ! j) (zip y_true y_pred))"

definition predicted_sum :: "bool list list \<Rightarrow> nat \<Rightarrow> nat" where
  "predicted_sum y_pred j = length (filter (\<lambda>p. p ! j) y_pred)"

definition true_sum :: "bool list list \<Rightarrow> nat \<Rightarrow> nat" where
  "true_sum y_true j = length (filter (\<lambda>t. t ! j) y_true)"

text \<open>
  Binary target: the labels are the values that occur among the targets or the
  predictions, in order (0 before 1), and per label \<open>l\<close> the samples count whose target and
  prediction are both \<open>l\<close>, whose prediction is \<open>l\<close>, whose target is \<open>l\<close>.
\<close>

definition unique_labels :: "bool list \<Rightarrow> bool list \<Rightarrow> bool list" where
  "unique_labels y_true y_pred = filter (\<lambda>l. l \<in> set y_true \<or> l \<in> set y_pred) [False, True]"

definition tp_bin :: "bool list \<Rightarrow> bool list \<Rightarrow> bool \<Rightarrow> nat" where
  "tp_bin y_true y_pred l = length (filter (\<lambda>(t, p). t = l \<and> p = l) (zip y_true y_pred))"

definition predicted_bin :: "bool list \<Rightarrow> bool \<Rightarrow> nat" where
  "predicted_bin y_pred l = length (filter (\<lambda>p. p = l) y_pred)"

definition true_bin :: "bool list \<Rightarrow> bool \<Rightarrow> nat" where
  "true_bin y_true l = length (filter (\<lambda>t. t = l) y_true)"

text \<open>The three counts of every label, in the order of the labels.\<close>

definition label_counts ::
    "bool list list \<Rightarrow> bool list list \<Rightarrow> error + (nat \<times> nat \<times> nat) list" where
  "label_counts y_true y_pred =
     bind_err (check_targets y_true y_pred) (\<lambda>y_type.
       case y_type of
         Binary \<Rightarrow>
           (let yt = concat y_true; yp = concat y_pred
            in Inr (map (\<lambda>l. (tp_bin yt yp l, predicted_bin yp l, true_bin yt l))
                      (unique_labels yt yp)))
       | MultilabelIndicator c \<Rightarrow>
           Inr (map (\<lambda>j. (tp_sum y_true y_pred j, predicted_sum y_pred j, true_sum y_true j))
                  [0..<c]))"

text \<open>
  sklearn's division: a zero denominator gives 0 (with a warning) instead of failing. The
  F-score with \<open>beta = 1\<close> is \<open>2 p r / (p + r)\<close> and 0 where \<open>p + r = 0\<close>.
\<close>

definition prf_divide :: "nat \<Rightarrow> nat \<Rightarrow> real" where
  "prf_divide numerator denominator =
     (if denominator = 0 then 0 else real numerator / real denominator)"

definition f_score :: "real \<Rightarrow> real \<Rightarrow> real" where
  "f_score p r = (if p + r = 0 then 0 else 2 * p * r / (p + r))"

text \<open>
  \<^verbatim>\<open>precision_recall_fscore_support(..., average="micro")\<close>: the three counts are summed
  over the labels before the ratios are taken.
\<close>

definition micro_scores :: "(nat \<times> nat \<times> nat) list \<Rightarrow> real \<times> real \<times> real" where
  "micro_scores counts =
     (let tp = sum_list (map (\<lambda>(tp, pred, true). tp) counts);
          pred = sum_list (map (\<lambda>(tp, pred, true). pred) counts);
          true = sum_list (map (\<lambda>(tp, pred, true). true) counts);
          p = prf_divide tp pred;
          r = prf_divide tp true
      in (p, r, f_score p r))"

definition precision_recall_fscore_support ::
    "bool list list \<Rightarrow> bool list list \<Rightarrow> error + (real \<times> real \<times> real)" where
  "precision_recall_fscore_support y_true y_pred =
     bind_err (label_counts y_true y_pred) (\<lambda>counts. Inr (micro_scores counts))"

text \<open>\<^verbatim>\<open>multilabel_confusion_matrix\<close>: per label \<open>[[tn, fp], [fn, tp]]\<close>.\<close>

definition label_conf_mat :: "nat \<Rightarrow> nat \<times> nat \<times> nat \<Rightarrow> conf_mat" where
  "label_conf_mat n counts =
     (case counts of (tp, pred, true) \<Rightarrow>
        (let fp = pred - tp;
             fn = true - tp;
             tn = n - tp - fp - fn
         in [[tn, fp], [fn, tp]]))"

definition multilabel_confusion_matrix ::
    "bool list list \<Rightarrow> bool list list \<Rightarrow> error + conf_mat list" where
  "multilabel_confusion_matrix y_true y_pred =
     bind_err (label_counts y_true y_pred) (\<lambda>counts.
       Inr (map (label_conf_mat (length y_true)) counts))"

text \<open>
  \<^verbatim>\<open>classification_report\<close>: it refuses target names whose number differs from the number
  of labels, and it cannot lay out a report without any name (the width of the name
  column is a maximum over the names); both are \<^verbatim>\<open>ValueError\<close>. It gives one line per label
  (the lines of averages after them are left out).
\<close>

definition label_row :: "string \<Rightarrow> nat \<times> nat \<times> nat \<Rightarrow> report_row" where
  "label_row name counts =
     (case counts of (tp, pred, true) \<Rightarrow>
        (let p = prf_divide tp pred;
             r = prf_divide tp true
         in \<lparr>row_label = name, row_precision = p, row_recall = r,
             row_f1 = f_score p r, row_support = true\<rparr>))"

definition classification_report ::
    "bool list list \<Rightarrow> bool list list \<Rightarrow> string list \<Rightarrow> error + report_row list" where
  "classification_report y_true y_pred target_names =
     bind_err (label_counts y_true y_pred) (\<lambda>counts.
       if length counts \<noteq> length target_names then Inl ValueError
       else if target_names = [] then Inl ValueError
       else Inr (map2 label_row target_names counts))"

section \<open>Epoch aggregation\<close>

text \<open>\<^verbatim>\<open>torch.sigmoid(logits) > 0.5\<close>, entry by entry.\<close>

definition threshold :: "real list list \<Rightarrow> bool list list" where
  "threshold logits = map (map (\<lambda>x. sigmoid x > 0.5)) logits"

text \<open>The loop over the step outputs, with its three accumulators.\<close>

fun gather ::
    "step_output list \<Rightarrow> bool list list \<Rightarrow> bool list list \<Rightarrow> real list
      \<Rightarrow> bool list list \<times> bool list list \<times> real list" where
  "gather [] all_targets all_preds all_loss = (all_targets, all_preds, all_loss)"
| "gather (outputs # rest) all_targets all_preds all_loss =
     (let logits = out_logits outputs;
          targets = out_targets outputs;
          preds = threshold logits
      in gather rest (all_targets @ targets) (all_preds @ preds)
           (all_loss @ [out_loss outputs]))"

text \<open>\<^verbatim>\<open>sum(all_loss) / len(all_loss)\<close>: Python raises on the empty list.\<close>

definition mean_loss :: "real list \<Rightarrow> error + real" where
  "mean_loss all_loss =
     (if length all_loss = 0 then Inl ZeroDivisionError
      else Inr (sum_list all_loss / real (length all_loss)))"

text \<open>\<^verbatim>\<open>self.class_names\<close>: the attribute is missing until \<^verbatim>\<open>on_train_start\<close> has run.\<close>

definition get_class_names :: "lit_model \<Rightarrow> error + string list" where
  "get_class_names s =
     (case class_names s of None \<Rightarrow> Inl AttributeError | Some names \<Rightarrow> Inr names)"

definition generic_epoch_end :: "lit_model \<Rightarrow> step_output list \<Rightarrow> error + metrics" where
  "generic_epoch_end s step_outputs =
     (case gather step_outputs [] [] [] of (all_targets, all_preds, all_loss) \<Rightarrow>
        bind_err (precision_recall_fscore_support all_targets all_preds) (\<lambda>(prec, rec, f1).
        bind_err (mean_loss all_loss) (\<lambda>avg_loss.
        bind_err (multilabel_confusion_matrix all_targets all_preds) (\<lambda>cms.
        bind_err (get_class_names s) (\<lambda>names.
        bind_err (classification_report all_targets all_preds names) (\<lambda>rep.
          Inr \<lparr>precision = prec, recall = rec, f1_score = f1, conf_mats = cms,
               report = rep, loss = avg_loss\<rparr>))))))"

section \<open>Reporting\<close>

text \<open>\<^verbatim>\<open>plt.subplots(9, 5)\<close> in the order of \<^verbatim>\<open>axs.ravel()\<close>, and \<^verbatim>\<open>set_axis_off\<close>.\<close>

definition subplots :: "nat \<Rightarrow> nat \<Rightarrow> axes list" where
  "subplots nrows ncols =
     replicate (nrows * ncols) \<lparr>axis_on = True, image = None, colorbar = False, title = []\<rparr>"

definition set_axis_off :: "axes \<Rightarrow> axes" where
  "set_axis_off ax = ax\<lparr>axis_on := False\<rparr>"

text \<open>
  The body of the loop for one class: \<^verbatim>\<open>disp.plot(ax=ax, colorbar=False)\<close> and the title
  \<^verbatim>\<open>label[0:20]\<close>.
\<close>

definition plot_class :: "conf_mat \<Rightarrow> string \<Rightarrow> axes \<Rightarrow> axes" where
  "plot_class cm label ax = ax\<lparr>image := Some cm, colorbar := False, title := take 20 label\<rparr>"

text \<open>
  The loop runs over \<^verbatim>\<open>zip(conf_mats, self.class_names, axs.ravel())\<close> and so ends with
  the shortest of the three; the axes it does not reach stay as they are.
\<close>

fun plot_all :: "conf_mat list \<Rightarrow> string list \<Rightarrow> axes list \<Rightarrow> axes list" where
  "plot_all (cm # cms) (label # names) (ax # axs) = plot_class cm label ax # plot_all cms names axs"
| "plot_all cms names axs = axs"

definition conf_mat_log :: "conf_mat list \<Rightarrow> string list \<Rightarrow> axes list \<Rightarrow> (string \<times> conf_mat) list" where
  "conf_mat_log cms names axs = map (\<lambda>(cm, label, ax). (label, cm)) (zip cms (zip names axs))"

definition log_metrics :: "lit_model \<Rightarrow> metrics \<Rightarrow> string \<Rightarrow> (error \<times> lit_model) + lit_model" where
  "log_metrics s m split =
     (let s1 = self_log (self_log (self_log s
                 (''precision/'' @ split) (precision m))
                 (''recall/'' @ split) (recall m))
                 (''f1_score/'' @ split) (f1_score m);
          s2 = s1\<lparr>infos := infos s1 @
                  [InfoEpoch split (current_epoch s1), InfoReport split (report m)]\<rparr>;
          cms = conf_mats m;
          axs = map set_axis_off (subplots 9 5)
      in bind_err (raise_at s2 (get_class_names s2)) (\<lambda>names.
           (let fig = plot_all cms names axs;
                s3 = s2\<lparr>figures := figures s2 @
                        [(''confusion matrix/'' @ split, fig, global_step s2)]\<rparr>
            in Inr (s3\<lparr>infos := infos s3 @ [InfoConfMats split (conf_mat_log cms names axs)]\<rparr>))))"

section \<open>Epoch ends\<close>

definition training_epoch_end ::
    "lit_model \<Rightarrow> step_output list \<Rightarrow> (error \<times> lit_model) + lit_model" where
  "training_epoch_end s training_step_outputs =
     bind_err (raise_at s (generic_epoch_end s training_step_outputs)) (\<lambda>m.
       log_metrics s m ''train'')"

definition validation_epoch_end ::
    "lit_model \<Rightarrow> step_output list \<Rightarrow> (error \<times> lit_model) + lit_model" where
  "validation_epoch_end s validation_step_outputs =
     (if \<not> sanity_checking s
      then bind_err (raise_at s (generic_epoch_end s validation_step_outputs)) (\<lambda>m.
           bind_err (log_metrics s m ''val'') (\<lambda>s1.
           bind_err (update_best_metric s1 m) (\<lambda>(r, s2). Inr s2)))
      else Inr s)"

definition test_epoch_end ::
    "lit_model \<Rightarrow> step_output list \<Rightarrow> (error \<times> lit_model) + lit_model" where
  "test_epoch_end s test_step_outputs =
     bind_err (raise_at s (generic_epoch_end s test_step_outputs)) (\<lambda>m.
       log_metrics s m ''test'')"

section \<open>The trainer\<close>

text \<open>
  The hooks are called by pytorch_lightning's \<^verbatim>\<open>Trainer.fit\<close>, which is not part of the
  repository. Modelled from pytorch_lightning 1.x, which the hooks \<^verbatim>\<open>training_epoch_end\<close>
  and \<^verbatim>\<open>validation_epoch_end\<close> belong to. \<^verbatim>\<open>fit\<close> first runs the sanity check, unless it has
  no sanity batches: with \<^verbatim>\<open>trainer.sanity_checking\<close> set it calls \<^verbatim>\<open>validation_step\<close> on each
  of the first validation batches and then \<^verbatim>\<open>validation_epoch_end\<close> on their outputs, and
  clears the flag again. Only then it calls \<^verbatim>\<open>on_train_start\<close>. An epoch of training
  follows: \<^verbatim>\<open>training_step\<close> on every training batch, each one optimizer step, then the
  validation batches with \<^verbatim>\<open>validation_epoch_end\<close>, then \<^verbatim>\<open>training_epoch_end\<close>. The
  embedding stops after the first epoch. An exception of a hook ends the run.
\<close>

fun validation_steps ::
    "('x \<Rightarrow> real list list) \<Rightarrow> (real list list \<Rightarrow> bool list list \<Rightarrow> real) \<Rightarrow> lit_model
      \<Rightarrow> 'x batch list \<Rightarrow> step_output list \<times> lit_model" where
  "validation_steps model loss_fn s [] = ([], s)"
| "validation_steps model loss_fn s (b # bs) =
     (case validation_step model loss_fn s b of (outputs, s1) \<Rightarrow>
        (case validation_steps model loss_fn s1 bs of (rest, s2) \<Rightarrow> (outputs # rest, s2)))"

fun training_steps ::
    "('x \<Rightarrow> real list list) \<Rightarrow> (real list list \<Rightarrow> bool list list \<Rightarrow> real) \<Rightarrow> lit_model
      \<Rightarrow> 'x batch list \<Rightarrow> step_output list \<times> lit_model" where
  "training_steps model loss_fn s [] = ([], s)"
| "training_steps model loss_fn s (b # bs) =
     (case training_step model loss_fn s b of (outputs, s1) \<Rightarrow>
        (case training_steps model loss_fn (s1\<lparr>global_step := global_step s1 + 1\<rparr>) bs of
           (rest, s2) \<Rightarrow> (outputs # rest, s2)))"

definition run_sanity_check ::
    "('x \<Rightarrow> real list list) \<Rightarrow> (real list list \<Rightarrow> bool list list \<Rightarrow> real) \<Rightarrow> lit_model
      \<Rightarrow> 'x batch list \<Rightarrow> (error \<times> lit_model) + lit_model" where
  "run_sanity_check model loss_fn s sanity_batches =
     (case validation_steps model loss_fn (s\<lparr>sanity_checking := True\<rparr>) sanity_batches of
        (outputs, s1) \<Rightarrow>
          bind_err (validation_epoch_end s1 outputs) (\<lambda>s2. Inr (s2\<lparr>sanity_checking := False\<rparr>)))"

text \<open>
  What a run has done is the list of the hooks it has entered, in order, each step with
  its batch; the run of \<^verbatim>\<open>fit\<close> returns this list with the outcome.
\<close>

datatype 'x hook =
    Validation_step "'x batch"
  | Validation_epoch_end
  | On_train_start
  | Training_step "'x batch"
  | Training_epoch_end

definition fit ::
    "('x \<Rightarrow> real list list) \<Rightarrow> (real list list \<Rightarrow> bool list list \<Rightarrow> real) \<Rightarrow> lit_model
      \<Rightarrow> 'x batch list \<Rightarrow> 'x batch list \<Rightarrow> 'x batch list
      \<Rightarrow> 'x hook list \<times> ((error \<times> lit_model) + lit_model)" where
  "fit model loss_fn s sanity_batches train_batches val_batches =
     (let sanity_hooks =
            (if sanity_batches = [] then []
             else map Validation_step sanity_batches @ [Validation_epoch_end]);
          start_hooks = sanity_hooks @ [On_train_start];
          val_hooks = start_hooks @ map Training_step train_batches @
                        map Validation_step val_batches @ [Validation_epoch_end]
      in case (if sanity_batches = [] then Inr s
               else run_sanity_check model loss_fn s sanity_batches) of
           Inl failure \<Rightarrow> (sanity_hooks, Inl failure)
         | Inr s1 \<Rightarrow>
             (case on_train_start s1 of
                Inl failure \<Rightarrow> (start_hooks, Inl failure)
              | Inr s2 \<Rightarrow>
                  (case training_steps model loss_fn s2 train_batches of
                     (train_outputs, s3) \<Rightarrow>
                       (case validation_steps model loss_fn s3 val_batches of
                          (val_outputs, s4) \<Rightarrow>
                            (case validation_epoch_end s4 val_outputs of
                               Inl failure \<Rightarrow> (val_hooks, Inl failure)
                             | Inr s5 \<Rightarrow>
                                 (val_hooks @ [Training_epoch_end],
                                  training_epoch_end s5 train_outputs))))))"

section \<open>The aggregation in the words of the specification\<close>

text \<open>
  The specification thresholds \<open>sigmoid(logit) > 0.5\<close> and concatenates the predictions and
  the targets of all batches. It counts over all pairs of a sample and a class: every
  entry of the target matrix with the entry of the prediction matrix at the same place. A
  true positive is a pair with both entries 1, a false positive a pair predicted 1 with
  target 0, a false negative a pair predicted 0 with target 1. The ratios are taken after
  the sums, a zero denominator giving 0.
\<close>

definition spec_targets :: "step_output list \<Rightarrow> bool list list" where
  "spec_targets outs = concat (map out_targets outs)"

definition spec_predictions :: "step_output list \<Rightarrow> bool list list" where
  "spec_predictions outs =
     concat (map (\<lambda>out. map (map (\<lambda>x. 1 / (1 + exp (- x)) > 0.5)) (out_logits out)) outs)"

definition class_sample_pairs :: "bool list list \<Rightarrow> bool list list \<Rightarrow> (bool \<times> bool) list" where
  "class_sample_pairs y_true y_pred = concat (map2 zip y_true y_pred)"

definition spec_tp :: "bool list list \<Rightarrow> bool list list \<Rightarrow> nat" where
  "spec_tp y_true y_pred = length (filter (\<lambda>(t, p). t \<and> p) (class_sample_pairs y_true y_pred))"

definition spec_fp :: "bool list list \<Rightarrow> bool list list \<Rightarrow> nat" where
  "spec_fp y_true y_pred = length (filter (\<lambda>(t, p). \<not> t \<and> p) (class_sample_pairs y_true y_pred))"

definition spec_fn :: "bool list list \<Rightarrow> bool list list \<Rightarrow> nat" where
  "spec_fn y_true y_pred = length (filter (\<lambda>(t, p). t \<and> \<not> p) (class_sample_pairs y_true y_pred))"

definition spec_ratio :: "nat \<Rightarrow> nat \<Rightarrow> real" where
  "spec_ratio a b = (if b = 0 then 0 else real a / real b)"

definition spec_precision :: "step_output list \<Rightarrow> real" where
  "spec_precision outs =
     (let tp = spec_tp (spec_targets outs) (spec_predictions outs);
          fp = spec_fp (spec_targets outs) (spec_predictions outs)
      in spec_ratio tp (tp + fp))"

definition spec_recall :: "step_output list \<Rightarrow> real" where
  "spec_recall outs =
     (let tp = spec_tp (spec_targets outs) (spec_predictions outs);
          fn = spec_fn (spec_targets outs) (spec_predictions outs)
      in spec_ratio tp (tp + fn))"

definition spec_f1 :: "step_output list \<Rightarrow> real" where
  "spec_f1 outs =
     (let tp = spec_tp (spec_targets outs) (spec_predictions outs);
          fp = spec_fp (spec_targets outs) (spec_predictions outs);
          fn = spec_fn (spec_targets outs) (spec_predictions outs)
      in spec_ratio (2 * tp) (2 * tp + fp + fn))"

section \<open>Best-metric tracking: what one update and a run of updates do\<close>

lemma on_train_start_ok:
  assumes "monitor_mode s \<in> {''min'', ''max''}"
    and "monitor_name s \<in> {''loss'', ''precision'', ''recall'', ''f1_score''}"
  shows "on_train_start s =
    Inr (s\<lparr>hyperparams := hyperparams s @ [init_metrics],
           best_metric := Some (if monitor_name s = ''loss'' then 99999 else 0),
           class_names := Some (dataset_class_names s)\<rparr>)"
  using assms by (auto simp: on_train_start_def init_metrics_def Let_def)

lemma update_best_metric_min:
  assumes "monitor_mode s = ''min''" and "best_metric s = Some b"
    and "metrics_get m (monitor_name s) = Inr v"
  shows "update_best_metric s m =
    Inr (PyNone, if v < b then s\<lparr>hyperparams := hyperparams s @ [best_record m],
                                best_metric := Some v\<rparr> else s)"
  using assms by (simp add: update_best_metric_def compare_with_best_def raise_at_def bind_err_def
      get_best_metric_def Let_def)

lemma update_best_metric_max:
  assumes "monitor_mode s = ''max''" and "best_metric s = Some b"
    and "metrics_get m (monitor_name s) = Inr v"
  shows "update_best_metric s m =
    Inr (PyNone, if b < v then s\<lparr>hyperparams := hyperparams s @ [best_record m],
                                best_metric := Some v\<rparr> else s)"
  using assms by (simp add: update_best_metric_def compare_with_best_def raise_at_def bind_err_def
      get_best_metric_def Let_def)

lemma seq_min:
  assumes "monitor_mode s = ''min''" and "best_metric s = Some b" and "monitor_name s = name"
    and "map (\<lambda>m. metrics_get m name) ms = map Inr vs"
  shows "\<exists>s'. update_best_metric_seq s ms = Inr s' \<and> best_metric s' = Some (fold min vs b)"
  using assms
proof (induction ms arbitrary: s b vs)
  case Nil
  then show ?case by simp
next
  case (Cons m ms)
  then obtain v vs' where vs: "vs = v # vs'" by (cases vs) auto
  with Cons.prems have v: "metrics_get m (monitor_name s) = Inr v"
    and rest: "map (\<lambda>m. metrics_get m name) ms = map Inr vs'" by auto
  define s1 where "s1 = (if v < b then s\<lparr>hyperparams := hyperparams s @ [best_record m],
                                best_metric := Some v\<rparr> else s)"
  have step: "update_best_metric s m = Inr (PyNone, s1)"
    unfolding s1_def using update_best_metric_min [OF Cons.prems(1,2) v] .
  have s1: "monitor_mode s1 = ''min''" "best_metric s1 = Some (min v b)"
     "monitor_name s1 = name"
    using Cons.prems(1,2,3) by (auto simp: min_def s1_def)
  from Cons.IH [OF s1 rest]
  show ?case unfolding vs by (simp add: step)
qed

lemma seq_max:
  assumes "monitor_mode s = ''max''" and "best_metric s = Some b" and "monitor_name s = name"
    and "map (\<lambda>m. metrics_get m name) ms = map Inr vs"
  shows "\<exists>s'. update_best_metric_seq s ms = Inr s' \<and> best_metric s' = Some (fold max vs b)
     \<and> monitor_mode s' = ''max'' \<and> monitor_name s' = name"
  using assms
proof (induction ms arbitrary: s b vs)
  case Nil
  then show ?case by simp
next
  case (Cons m ms)
  then obtain v vs' where vs: "vs = v # vs'" by (cases vs) auto
  with Cons.prems have v: "metrics_get m (monitor_name s) = Inr v"
    and rest: "map (\<lambda>m. metrics_get m name) ms = map Inr vs'" by auto
  define s1 where "s1 = (if b < v then s\<lparr>hyperparams := hyperparams s @ [best_record m],
                                best_metric := Some v\<rparr> else s)"
  have step: "update_best_metric s m = Inr (PyNone, s1)"
    unfolding s1_def using update_best_metric_max [OF Cons.prems(1,2) v] .
  have s1: "monitor_mode s1 = ''max''" "best_metric s1 = Some (max v b)"
     "monitor_name s1 = name"
    using Cons.prems(1,2,3) by (auto simp: max_def s1_def)
  from Cons.IH [OF s1 rest]
  show ?case unfolding vs by (simp add: step)
qed

lemma fold_min_Min: "fold min vs (b::real) = Min (set (b # vs))"
  using Min.set_eq_fold [of b vs] by simp

lemma fold_max_Max: "fold max vs (b::real) = Max (set (b # vs))"
  using Max.set_eq_fold [of b vs] by simp

text \<open>
  C1, as the code has it. \<^verbatim>\<open>on_train_start\<close> takes the first best metric from the table
  \<^verbatim>\<open>init_metrics\<close> under the monitored name, whatever the mode: 99999 for loss and 0 for
  precision, recall and f1_score; there is no infinite value. With mode min and monitored
  values \<open>vs\<close> of the validation epochs in order, the best metric after the last epoch is
  the least of the initial value and \<open>vs\<close>.
\<close>

theorem best_metric_min_mode:
  assumes "monitor_mode s = ''min''"
    and "monitor_name s \<in> {''loss'', ''precision'', ''recall'', ''f1_score''}"
    and "map (\<lambda>m. metrics_get m (monitor_name s)) ms = map Inr vs"
    and "init = (if monitor_name s = ''loss'' then 99999 else 0)"
  shows "\<exists>s1 s2. on_train_start s = Inr s1 \<and> best_metric s1 = Some init \<and>
           train_then_validate s ms = Inr s2 \<and>
           best_metric s2 = Some (Min (set (init # vs)))"
proof -
  define s1 where "s1 = s\<lparr>hyperparams := hyperparams s @ [init_metrics],
           best_metric := Some init, class_names := Some (dataset_class_names s)\<rparr>"
  have start: "on_train_start s = Inr s1"
    unfolding s1_def assms(4) using assms(1,2) by (intro on_train_start_ok) simp_all
  have "monitor_mode s1 = ''min''" "best_metric s1 = Some init" "monitor_name s1 = monitor_name s"
    using assms(1) by (simp_all add: s1_def)
  from seq_min [OF this assms(3)] obtain s2
    where "update_best_metric_seq s1 ms = Inr s2" "best_metric s2 = Some (fold min vs init)"
    by blast
  then show ?thesis
    using start \<open>best_metric s1 = Some init\<close>
    by (simp add: train_then_validate_def bind_err_def fold_min_Min)
qed

text \<open>Three epochs with losses 0.7, 0.4, 0.9 under mode min, name loss: the best is 0.4.\<close>

theorem best_metric_min_mode_witness:
  "\<exists>s2. train_then_validate (lit_model_init ''min'' ''loss'' [''Airports'', ''Pastures''])
       [\<lparr>precision = 0.5, recall = 0.5, f1_score = 0.5, conf_mats = [], report = [], loss = 0.7\<rparr>,
        \<lparr>precision = 0.6, recall = 0.6, f1_score = 0.6, conf_mats = [], report = [], loss = 0.4\<rparr>,
        \<lparr>precision = 0.6, recall = 0.6, f1_score = 0.6, conf_mats = [], report = [], loss = 0.9\<rparr>]
      = Inr s2 \<and> best_metric s2 = Some 0.4"
proof -
  from best_metric_min_mode
    [of "lit_model_init ''min'' ''loss'' [''Airports'', ''Pastures'']"
       "[\<lparr>precision = 0.5, recall = 0.5, f1_score = 0.5, conf_mats = [], report = [], loss = 0.7\<rparr>,
        \<lparr>precision = 0.6, recall = 0.6, f1_score = 0.6, conf_mats = [], report = [], loss = 0.4\<rparr>,
        \<lparr>precision = 0.6, recall = 0.6, f1_score = 0.6, conf_mats = [], report = [], loss = 0.9\<rparr>]"
       "[0.7, 0.4, 0.9]" 99999]
  show ?thesis by (auto simp: lit_model_init_def metrics_get_def)
qed

text \<open>
  C1 as the spec words it asks for the least of the losses and \<open>+infinity\<close>, which for the
  single loss 100000 is 100000. The run keeps 99999.
\<close>

theorem best_metric_min_mode_counterexample:
  "map_sum id best_metric
     (train_then_validate (lit_model_init ''min'' ''loss'' [''Airports'', ''Pastures''])
        [\<lparr>precision = 0, recall = 0, f1_score = 0, conf_mats = [], report = [], loss = 100000\<rparr>])
     = Inr (Some 99999) \<and>
   map_sum id best_metric
     (train_then_validate (lit_model_init ''min'' ''loss'' [''Airports'', ''Pastures''])
        [\<lparr>precision = 0, recall = 0, f1_score = 0, conf_mats = [], report = [], loss = 100000\<rparr>])
     \<noteq> Inr (Some (Min {100000}))"
  by (simp add: train_then_validate_def on_train_start_def lit_model_init_def init_metrics_def
      update_best_metric_def compare_with_best_def raise_at_def metrics_get_def
      get_best_metric_def bind_err_def Let_def)

text \<open>
  C2. The monitor configuration of the specification pairs the mode max with one of the
  names precision, recall and f1_score. For such a module the best metric starts at 0, and
  after the validation epochs with monitored values \<open>vs\<close> it is the greatest of 0 and
  \<open>vs\<close>. The update at epoch \<open>i\<close> sends the record of the four scalars and replaces the
  best metric exactly when \<open>vs ! i\<close> is strictly above 0 and all earlier values; otherwise
  it leaves the module as it is.
\<close>

theorem best_metric_max_mode:
  assumes "monitor_mode s = ''max''"
    and "monitor_name s \<in> {''precision'', ''recall'', ''f1_score''}"
    and "map (\<lambda>m. metrics_get m (monitor_name s)) ms = map Inr vs"
  shows "\<exists>s1 s2. on_train_start s = Inr s1 \<and> best_metric s1 = Some 0 \<and>
           train_then_validate s ms = Inr s2 \<and>
           best_metric s2 = Some (Max (set (0 # vs))) \<and>
           (\<forall>i<length ms. \<exists>si.
              update_best_metric_seq s1 (take i ms) = Inr si \<and>
              update_best_metric si (ms ! i) =
                Inr (PyNone,
                     if Max (set (0 # take i vs)) < vs ! i
                     then si\<lparr>hyperparams := hyperparams si @ [best_record (ms ! i)],
                            best_metric := Some (vs ! i)\<rparr>
                     else si))"
proof -
  define s1 where "s1 = s\<lparr>hyperparams := hyperparams s @ [init_metrics],
           best_metric := Some 0, class_names := Some (dataset_class_names s)\<rparr>"
  have "monitor_name s \<noteq> ''loss''" using assms(2) by auto
  then have start: "on_train_start s = Inr s1"
    unfolding s1_def using assms(1,2) on_train_start_ok [of s] by auto
  have s1: "monitor_mode s1 = ''max''" "best_metric s1 = Some 0"
    "monitor_name s1 = monitor_name s"
    using assms(1) by (simp_all add: s1_def)
  from seq_max [OF s1 assms(3)] obtain s2
    where s2: "update_best_metric_seq s1 ms = Inr s2" "best_metric s2 = Some (fold max vs 0)"
    by blast
  have len: "length vs = length ms"
    using assms(3) by (metis length_map)
  have steps: "\<exists>si. update_best_metric_seq s1 (take i ms) = Inr si \<and>
              update_best_metric si (ms ! i) =
                Inr (PyNone,
                     if Max (set (0 # take i vs)) < vs ! i
                     then si\<lparr>hyperparams := hyperparams si @ [best_record (ms ! i)],
                            best_metric := Some (vs ! i)\<rparr>
                     else si)" if i: "i < length ms" for i
  proof -
    have pre: "map (\<lambda>m. metrics_get m (monitor_name s)) (take i ms) = map Inr (take i vs)"
      using assms(3) by (simp add: take_map [symmetric])
    from seq_max [OF s1 pre] obtain si
      where si: "update_best_metric_seq s1 (take i ms) = Inr si"
        "best_metric si = Some (fold max (take i vs) 0)"
        "monitor_mode si = ''max''" "monitor_name si = monitor_name s"
      by blast
    have "map (\<lambda>m. metrics_get m (monitor_name s)) ms ! i = map Inr vs ! i"
      using assms(3) by simp
    then have v: "metrics_get (ms ! i) (monitor_name si) = Inr (vs ! i)"
      using i len si(4) by simp
    show ?thesis
      using si(1) update_best_metric_max [OF si(3) si(2) v]
      by (simp add: fold_max_Max)
  qed
  show ?thesis
    using start s1(2) s2 steps
    by (simp add: train_then_validate_def bind_err_def fold_max_Max)
qed

text \<open>
  Two epochs with f1 scores 0.5 and 0.3 under mode max, name f1_score: the start is 0, the
  first epoch updates to 0.5, the second changes nothing.
\<close>

theorem best_metric_max_mode_witness:
  "\<exists>s1 s2 s3.
     on_train_start (lit_model_init ''max'' ''f1_score'' [''Airports'', ''Pastures'']) = Inr s1 \<and>
     best_metric s1 = Some 0 \<and>
     update_best_metric s1
        \<lparr>precision = 0.5, recall = 0.5, f1_score = 0.5, conf_mats = [], report = [], loss = 0.7\<rparr>
       = Inr (PyNone, s2) \<and> best_metric s2 = Some 0.5 \<and>
     update_best_metric s2
        \<lparr>precision = 0.6, recall = 0.6, f1_score = 0.3, conf_mats = [], report = [], loss = 0.4\<rparr>
       = Inr (PyNone, s2) \<and>
     train_then_validate (lit_model_init ''max'' ''f1_score'' [''Airports'', ''Pastures''])
       [\<lparr>precision = 0.5, recall = 0.5, f1_score = 0.5, conf_mats = [], report = [], loss = 0.7\<rparr>,
        \<lparr>precision = 0.6, recall = 0.6, f1_score = 0.3, conf_mats = [], report = [], loss = 0.4\<rparr>]
      = Inr s3 \<and> best_metric s3 = Some 0.5"
proof -
  let ?s = "lit_model_init ''max'' ''f1_score'' [''Airports'', ''Pastures'']"
  let ?m1 = "\<lparr>precision = 0.5, recall = 0.5, f1_score = 0.5, conf_mats = [], report = [], loss = 0.7\<rparr>"
  let ?m2 = "\<lparr>precision = 0.6, recall = 0.6, f1_score = 0.3, conf_mats = [], report = [], loss = 0.4\<rparr>"
  from best_metric_max_mode [of ?s "[?m1, ?m2]" "[0.5, 0.3]"]
  obtain s1 s3 where a: "on_train_start ?s = Inr s1" "best_metric s1 = Some 0"
    "train_then_validate ?s [?m1, ?m2] = Inr s3" "best_metric s3 = Some 0.5"
    and b: "\<forall>i<2. \<exists>si. update_best_metric_seq s1 (take i [?m1, ?m2]) = Inr si \<and>
              update_best_metric si ([?m1, ?m2] ! i) =
                Inr (PyNone,
                     if Max (set (0 # take i [0.5, 0.3])) < [0.5, 0.3 :: real] ! i
                     then si\<lparr>hyperparams := hyperparams si @ [best_record ([?m1, ?m2] ! i)],
                            best_metric := Some ([0.5, 0.3] ! i)\<rparr>
                     else si)"
    by (auto simp: lit_model_init_def metrics_get_def)
  from b [rule_format, of 0] have s2: "update_best_metric s1 ?m1 =
      Inr (PyNone, s1\<lparr>hyperparams := hyperparams s1 @ [best_record ?m1], best_metric := Some 0.5\<rparr>)"
    by simp
  from b [rule_format, of 1] s2 have "update_best_metric
      (s1\<lparr>hyperparams := hyperparams s1 @ [best_record ?m1], best_metric := Some 0.5\<rparr>) ?m2 =
      Inr (PyNone, s1\<lparr>hyperparams := hyperparams s1 @ [best_record ?m1], best_metric := Some 0.5\<rparr>)"
    by simp
  with a s2 show ?thesis by simp
qed

text \<open>
  C4, as the code has it. \<^verbatim>\<open>update_best_metric\<close> returns \<^verbatim>\<open>None\<close> on every call that does
  not raise. Its local flag \<^verbatim>\<open>update\<close> is not returned; it decides what happens to the state:
  the best metric changes exactly when the monitored value is strictly better than the
  best one under the mode, and then the best metric is that value and one record has been
  sent; otherwise the state is unchanged.
\<close>

theorem update_best_metric_returns_none:
  assumes "update_best_metric s m = Inr (r, s')"
  shows "r = PyNone \<and>
         (best_metric s' \<noteq> best_metric s \<longleftrightarrow>
            (\<exists>v b. metrics_get m (monitor_name s) = Inr v \<and> best_metric s = Some b \<and>
                   (monitor_mode s = ''min'' \<and> v < b \<or> monitor_mode s = ''max'' \<and> b < v))) \<and>
         (best_metric s' \<noteq> best_metric s \<longrightarrow>
            best_metric s' = Some (projr (metrics_get m (monitor_name s))) \<and>
            hyperparams s' = hyperparams s @ [best_record m]) \<and>
         (best_metric s' = best_metric s \<longrightarrow> s' = s)"
  using assms
  by (auto simp: update_best_metric_def compare_with_best_def raise_at_def bind_err_def
      get_best_metric_def Let_def
      split: if_splits sum.splits option.splits error.splits)

text \<open>An improving F1 score under mode max: the call yields \<^verbatim>\<open>None\<close> and the state is updated.\<close>

theorem update_best_metric_returns_none_witness:
  "update_best_metric
     ((lit_model_init ''max'' ''f1_score'' [''Airports'', ''Pastures''])\<lparr>best_metric := Some 0\<rparr>)
     \<lparr>precision = 0.5, recall = 0.5, f1_score = 0.5, conf_mats = [], report = [], loss = 0.7\<rparr>
   = Inr (PyNone,
      (lit_model_init ''max'' ''f1_score'' [''Airports'', ''Pastures''])
        \<lparr>best_metric := Some 0.5,
         hyperparams := [[(''best_metrics/loss'', 0.7), (''best_metrics/precision'', 0.5),
                          (''best_metrics/recall'', 0.5), (''best_metrics/f1_score'', 0.5)]]\<rparr>)"
proof -
  let ?s = "(lit_model_init ''max'' ''f1_score'' [''Airports'', ''Pastures''])\<lparr>best_metric := Some 0\<rparr>"
  let ?m = "\<lparr>precision = 0.5, recall = 0.5, f1_score = 0.5, conf_mats = [], report = [], loss = 0.7\<rparr>"
  have run: "update_best_metric ?s ?m = Inr (PyNone, ?s
        \<lparr>hyperparams := hyperparams ?s @ [best_record ?m], best_metric := Some 0.5\<rparr>)"
    by (simp add: update_best_metric_def compare_with_best_def raise_at_def lit_model_init_def
        metrics_get_def get_best_metric_def bind_err_def Let_def)
  from update_best_metric_returns_none [OF run] run
  show ?thesis by (simp add: lit_model_init_def best_record_def)
qed

text \<open>
  C4 as the spec words it wants \<^verbatim>\<open>True\<close> from a call that replaces the best metric. Here
  the best metric goes from 0 to 0.5 and the call does not return \<^verbatim>\<open>True\<close>.
\<close>

theorem update_best_metric_returns_bool_counterexample:
  "map_sum id fst
     (update_best_metric
        ((lit_model_init ''max'' ''f1_score'' [''Airports'', ''Pastures''])\<lparr>best_metric := Some 0\<rparr>)
        \<lparr>precision = 0.5, recall = 0.5, f1_score = 0.5, conf_mats = [], report = [], loss = 0.7\<rparr>)
     \<noteq> Inr (PyBool True) \<and>
   map_sum id (best_metric \<circ> snd)
     (update_best_metric
        ((lit_model_init ''max'' ''f1_score'' [''Airports'', ''Pastures''])\<lparr>best_metric := Some 0\<rparr>)
        \<lparr>precision = 0.5, recall = 0.5, f1_score = 0.5, conf_mats = [], report = [], loss = 0.7\<rparr>)
     = Inr (Some 0.5)"
  by (simp add: update_best_metric_def compare_with_best_def raise_at_def lit_model_init_def
        metrics_get_def get_best_metric_def bind_err_def Let_def)

section \<open>The sanity pass\<close>

lemma self_log_fields:
  "monitor_mode (self_log s n v) = monitor_mode s"
  "monitor_name (self_log s n v) = monitor_name s"
  "best_metric (self_log s n v) = best_metric s"
  "class_names (self_log s n v) = class_names s"
  "sanity_checking (self_log s n v) = sanity_checking s"
  "current_epoch (self_log s n v) = current_epoch s"
  "global_step (self_log s n v) = global_step s"
  "hyperparams (self_log s n v) = hyperparams s"
  "figures (self_log s n v) = figures s"
  "infos (self_log s n v) = infos s"
  by (simp_all add: self_log_def)

lemma validation_steps_sanity:
  "sanity_checking s \<Longrightarrow>
   validation_steps model loss_fn s bs = (map (generic_step model loss_fn) bs, s)"
  by (induction bs) (simp_all add: validation_step_def self_log_def Let_def)

lemma run_sanity_check_eq:
  "run_sanity_check model loss_fn s batches = Inr (s\<lparr>sanity_checking := False\<rparr>)"
proof -
  have "validation_steps model loss_fn (s\<lparr>sanity_checking := True\<rparr>) batches =
      (map (generic_step model loss_fn) batches, s\<lparr>sanity_checking := True\<rparr>)"
    by (rule validation_steps_sanity) simp
  then show ?thesis
    by (simp add: run_sanity_check_def validation_epoch_end_def bind_err_def)
qed

text \<open>
  C3. While \<^verbatim>\<open>trainer.sanity_checking\<close> is set, neither hook of a validation phase changes
  the module: \<^verbatim>\<open>validation_step\<close> hands its loss to \<^verbatim>\<open>self.log\<close>, which passes nothing on
  during the sanity pass, and \<^verbatim>\<open>validation_epoch_end\<close> skips its whole body, so it neither
  aggregates, nor reports, nor calls \<^verbatim>\<open>update_best_metric\<close>. The sanity pass of the trainer
  over any batches therefore returns the module it started from, with the flag cleared:
  no scalar, no best record, no figure and no message has been added, and the best metric
  is untouched. Outside the sanity pass the same \<^verbatim>\<open>validation_step\<close> does send its running
  loss as the scalar \<^verbatim>\<open>loss/val\<close>.
\<close>

theorem sanity_pass_sends_nothing:
  "(sanity_checking s \<longrightarrow>
      validation_step model loss_fn s b = (generic_step model loss_fn b, s) \<and>
      validation_epoch_end s outs = Inr s) \<and>
   run_sanity_check model loss_fn s batches = Inr (s\<lparr>sanity_checking := False\<rparr>) \<and>
   (\<not> sanity_checking s \<longrightarrow>
      validation_step model loss_fn s b =
        (generic_step model loss_fn b,
         s\<lparr>logged := logged s @ [(''loss/val'', out_loss (generic_step model loss_fn b))]\<rparr>))"
proof -
  have step: "validation_step model loss_fn s b = (generic_step model loss_fn b, s)"
    if "sanity_checking s"
    using that by (simp add: validation_step_def self_log_def Let_def)
  have epoch: "validation_epoch_end s outs = Inr s" if "sanity_checking s"
    using that by (simp add: validation_epoch_end_def)
  have plain: "validation_step model loss_fn s b =
        (generic_step model loss_fn b,
         s\<lparr>logged := logged s @ [(''loss/val'', out_loss (generic_step model loss_fn b))]\<rparr>)"
    if "\<not> sanity_checking s"
    using that by (simp add: validation_step_def self_log_def Let_def)
  from step epoch plain run_sanity_check_eq [of model loss_fn s batches] show ?thesis by blast
qed

text \<open>
  The module as \<^verbatim>\<open>__init__\<close> leaves it, which is how the sanity pass finds it: the pass over
  one batch returns it unchanged. Its best metric is not set yet, so a call of
  \<^verbatim>\<open>update_best_metric\<close> would have raised; the epoch end returns normally. The same step
  outside the sanity pass adds its \<^verbatim>\<open>loss/val\<close> scalar.
\<close>

theorem sanity_pass_sends_nothing_witness:
  "run_sanity_check id bce_with_logits
     (lit_model_init ''min'' ''loss'' [''Airports'', ''Pastures''])
     [\<lparr>data = [[2, -1]], labels = [[True, False]]\<rparr>]
     = Inr (lit_model_init ''min'' ''loss'' [''Airports'', ''Pastures'']) \<and>
   validation_step id bce_with_logits
     ((lit_model_init ''min'' ''loss'' [''Airports'', ''Pastures''])\<lparr>sanity_checking := True\<rparr>)
     \<lparr>data = [[2, -1]], labels = [[True, False]]\<rparr>
     = (\<lparr>out_loss = bce_with_logits [[2, -1]] [[True, False]],
         out_targets = [[True, False]], out_logits = [[2, -1]]\<rparr>,
        (lit_model_init ''min'' ''loss'' [''Airports'', ''Pastures''])\<lparr>sanity_checking := True\<rparr>) \<and>
   validation_epoch_end
     ((lit_model_init ''min'' ''loss'' [''Airports'', ''Pastures''])\<lparr>sanity_checking := True\<rparr>)
     [\<lparr>out_loss = 0.3, out_targets = [[True, False]], out_logits = [[2, -1]]\<rparr>]
     = Inr ((lit_model_init ''min'' ''loss'' [''Airports'', ''Pastures''])\<lparr>sanity_checking := True\<rparr>) \<and>
   update_best_metric
     ((lit_model_init ''min'' ''loss'' [''Airports'', ''Pastures''])\<lparr>sanity_checking := True\<rparr>)
     \<lparr>precision = 1, recall = 1, f1_score = 1, conf_mats = [], report = [], loss = 0.3\<rparr>
     = Inl (AttributeError,
        (lit_model_init ''min'' ''loss'' [''Airports'', ''Pastures''])\<lparr>sanity_checking := True\<rparr>) \<and>
   validation_step id bce_with_logits
     (lit_model_init ''min'' ''loss'' [''Airports'', ''Pastures''])
     \<lparr>data = [[2, -1]], labels = [[True, False]]\<rparr>
     = (\<lparr>out_loss = bce_with_logits [[2, -1]] [[True, False]],
         out_targets = [[True, False]], out_logits = [[2, -1]]\<rparr>,
        (lit_model_init ''min'' ''loss'' [''Airports'', ''Pastures''])
          \<lparr>logged := [(''loss/val'', bce_with_logits [[2, -1]] [[True, False]])]\<rparr>)"
proof -
  let ?s = "lit_model_init ''min'' ''loss'' [''Airports'', ''Pastures'']"
  let ?b = "\<lparr>data = [[2, -1]], labels = [[True, False]]\<rparr> :: real list list batch"
  have flag: "sanity_checking (?s\<lparr>sanity_checking := True\<rparr>)" by simp
  have no_flag: "\<not> sanity_checking ?s" by (simp add: lit_model_init_def)
  have same: "?s\<lparr>sanity_checking := False\<rparr> = ?s" by (simp add: lit_model_init_def)
  from sanity_pass_sends_nothing [of ?s id bce_with_logits ?b "[]" "[?b]"] no_flag
  have pass: "run_sanity_check id bce_with_logits ?s [?b] = Inr ?s"
    and plain: "validation_step id bce_with_logits ?s ?b =
      (generic_step id bce_with_logits ?b,
       ?s\<lparr>logged := logged ?s @ [(''loss/val'', out_loss (generic_step id bce_with_logits ?b))]\<rparr>)"
    by (simp_all only: same) blast+
  from sanity_pass_sends_nothing
    [of "?s\<lparr>sanity_checking := True\<rparr>" id bce_with_logits ?b
        "[\<lparr>out_loss = 0.3, out_targets = [[True, False]], out_logits = [[2, -1]]\<rparr>]" "[]"] flag
  have hooks: "validation_step id bce_with_logits (?s\<lparr>sanity_checking := True\<rparr>) ?b =
      (generic_step id bce_with_logits ?b, ?s\<lparr>sanity_checking := True\<rparr>)"
    "validation_epoch_end (?s\<lparr>sanity_checking := True\<rparr>)
       [\<lparr>out_loss = 0.3, out_targets = [[True, False]], out_logits = [[2, -1]]\<rparr>] =
      Inr (?s\<lparr>sanity_checking := True\<rparr>)"
    by blast+
  have upd: "update_best_metric (?s\<lparr>sanity_checking := True\<rparr>)
     \<lparr>precision = 1, recall = 1, f1_score = 1, conf_mats = [], report = [], loss = 0.3\<rparr>
     = Inl (AttributeError, ?s\<lparr>sanity_checking := True\<rparr>)"
    by (simp add: update_best_metric_def compare_with_best_def raise_at_def bind_err_def
        get_best_metric_def metrics_get_def lit_model_init_def Let_def)
  have logged0: "logged ?s = []" by (simp add: lit_model_init_def)
  from pass plain hooks upd show ?thesis
    by (simp add: generic_step_def Let_def logged0)
qed

section \<open>Configuration check at the start of training\<close>

lemma on_train_start_bad:
  "on_train_start s = Inl (AssertionError, s) \<longleftrightarrow>
     monitor_mode s \<notin> {''min'', ''max''} \<or>
     monitor_name s \<notin> {''loss'', ''precision'', ''recall'', ''f1_score''}"
  by (auto simp: on_train_start_def init_metrics_def Let_def)

text \<open>
  C8, as the code has it. \<^verbatim>\<open>on_train_start\<close> checks the monitor configuration before it
  does anything else: it raises its assertion failure (the spec's ConfigError) with the
  module exactly as it found it, nothing sent and nothing set, if and only if the mode is
  not one of min, max or the name is not one of loss, precision, recall, f1_score. In a
  run of the trainer with such a configuration the hooks entered are those of the sanity
  pass, if the run has sanity batches, and then \<^verbatim>\<open>on_train_start\<close>, where the run ends: no
  training step is entered. The validation batches of the sanity pass have been processed
  by then. With a valid configuration the run goes on to a training step on every
  training batch.
\<close>

theorem on_train_start_fails_fast:
  "(on_train_start s = Inl (AssertionError, s) \<longleftrightarrow>
      monitor_mode s \<notin> {''min'', ''max''} \<or>
      monitor_name s \<notin> {''loss'', ''precision'', ''recall'', ''f1_score''}) \<and>
   (monitor_mode s \<notin> {''min'', ''max''} \<or>
    monitor_name s \<notin> {''loss'', ''precision'', ''recall'', ''f1_score''} \<longrightarrow>
      fit model loss_fn s sanity_batches train_batches val_batches =
        ((if sanity_batches = [] then []
          else map Validation_step sanity_batches @ [Validation_epoch_end]) @ [On_train_start],
         Inl (AssertionError,
              if sanity_batches = [] then s else s\<lparr>sanity_checking := False\<rparr>))) \<and>
   (monitor_mode s \<in> {''min'', ''max''} \<and>
    monitor_name s \<in> {''loss'', ''precision'', ''recall'', ''f1_score''} \<longrightarrow>
      (\<exists>rest outcome.
         fit model loss_fn s sanity_batches train_batches val_batches =
           ((if sanity_batches = [] then []
             else map Validation_step sanity_batches @ [Validation_epoch_end]) @
            [On_train_start] @ map Training_step train_batches @ rest, outcome)))"
proof -
  define s1 where "s1 = (if sanity_batches = [] then s else s\<lparr>sanity_checking := False\<rparr>)"
  have cfg: "monitor_mode s1 = monitor_mode s" "monitor_name s1 = monitor_name s"
    by (simp_all add: s1_def)
  have sanity: "(if sanity_batches = [] then Inr s
               else run_sanity_check model loss_fn s sanity_batches) = Inr s1"
    by (simp add: s1_def run_sanity_check_eq)
  have bad: "fit model loss_fn s sanity_batches train_batches val_batches =
        ((if sanity_batches = [] then []
          else map Validation_step sanity_batches @ [Validation_epoch_end]) @ [On_train_start],
         Inl (AssertionError, s1))"
    if "monitor_mode s \<notin> {''min'', ''max''} \<or>
        monitor_name s \<notin> {''loss'', ''precision'', ''recall'', ''f1_score''}"
  proof -
    from that have "on_train_start s1 = Inl (AssertionError, s1)"
      by (simp only: on_train_start_bad cfg)
    then show ?thesis
      unfolding fit_def Let_def sanity by simp
  qed
  have good: "\<exists>rest outcome.
         fit model loss_fn s sanity_batches train_batches val_batches =
           ((if sanity_batches = [] then []
             else map Validation_step sanity_batches @ [Validation_epoch_end]) @
            [On_train_start] @ map Training_step train_batches @ rest, outcome)"
    if "monitor_mode s \<in> {''min'', ''max''} \<and>
        monitor_name s \<in> {''loss'', ''precision'', ''recall'', ''f1_score''}"
  proof -
    from that obtain s2 where "on_train_start s1 = Inr s2"
      using on_train_start_ok [of s1] by (simp add: cfg)
    then show ?thesis
      unfolding fit_def Let_def sanity
      by (auto split: prod.splits sum.splits)
  qed
  from bad good show ?thesis
    unfolding s1_def by (simp only: on_train_start_bad) blast
qed

text \<open>The configuration mode avg, name loss, in a run without sanity batches.\<close>

theorem on_train_start_fails_fast_witness:
  "on_train_start (lit_model_init ''avg'' ''loss'' [''Airports'', ''Pastures''])
     = Inl (AssertionError, lit_model_init ''avg'' ''loss'' [''Airports'', ''Pastures'']) \<and>
   fit id bce_with_logits (lit_model_init ''avg'' ''loss'' [''Airports'', ''Pastures''])
     []
     [\<lparr>data = [[2, -1]], labels = [[True, False]]\<rparr>]
     [\<lparr>data = [[-3, 1]], labels = [[True, True]]\<rparr>]
     = ([On_train_start],
        Inl (AssertionError, lit_model_init ''avg'' ''loss'' [''Airports'', ''Pastures'']))"
  using on_train_start_fails_fast
    [of "lit_model_init ''avg'' ''loss'' [''Airports'', ''Pastures'']" id bce_with_logits "[]"
        "[\<lparr>data = [[2, -1]], labels = [[True, False]]\<rparr>]"
        "[\<lparr>data = [[-3, 1]], labels = [[True, True]]\<rparr>]"]
  by (simp add: lit_model_init_def)

text \<open>
  C8 as the spec words it has the failure before any batch is processed. In a run with
  one sanity batch, \<^verbatim>\<open>validation_step\<close> has processed that batch before \<^verbatim>\<open>on_train_start\<close>
  rejects the configuration mode avg, name loss.
\<close>

theorem config_check_after_sanity_batches_counterexample:
  "fit id bce_with_logits (lit_model_init ''avg'' ''loss'' [''Airports'', ''Pastures''])
     [\<lparr>data = [[-3, 1]], labels = [[True, True]]\<rparr>]
     [\<lparr>data = [[2, -1]], labels = [[True, False]]\<rparr>]
     [\<lparr>data = [[-3, 1]], labels = [[True, True]]\<rparr>]
     = ([Validation_step \<lparr>data = [[-3, 1]], labels = [[True, True]]\<rparr>,
         Validation_epoch_end, On_train_start],
        Inl (AssertionError, lit_model_init ''avg'' ''loss'' [''Airports'', ''Pastures'']))"
  by (simp add: fit_def run_sanity_check_def validation_step_def generic_step_def self_log_def
      validation_epoch_end_def on_train_start_def bind_err_def lit_model_init_def Let_def)

section \<open>The figure of confusion matrices\<close>

lemma length_plot_all: "length (plot_all cms names axs) = length axs"
  by (induction cms names axs rule: plot_all.induct) simp_all

lemma nth_plot_all:
  "i < length cms \<Longrightarrow> i < length names \<Longrightarrow> i < length axs \<Longrightarrow>
   plot_all cms names axs ! i = plot_class (cms ! i) (names ! i) (axs ! i)"
proof (induction cms names axs arbitrary: i rule: plot_all.induct)
  case (1 cm cms label names ax axs)
  then show ?case by (cases i) simp_all
qed simp_all

lemma nth_plot_all_rest:
  "min (length cms) (length names) \<le> i \<Longrightarrow> plot_all cms names axs ! i = axs ! i"
proof (induction cms names axs arbitrary: i rule: plot_all.induct)
  case (1 cm cms label names ax axs)
  then show ?case by (cases i) simp_all
qed simp_all

lemma length_grid: "length (subplots 9 5) = 45"
  by (simp add: subplots_def)

lemma nth_grid:
  "i < 45 \<Longrightarrow> map set_axis_off (subplots 9 5) ! i =
     \<lparr>axis_on = False, image = None, colorbar = False, title = []\<rparr>"
  by (simp add: subplots_def set_axis_off_def)

text \<open>
  C9, as the code has it. \<^verbatim>\<open>log_metrics\<close> submits one figure, tagged
  \<^verbatim>\<open>confusion matrix/<split>\<close> at the global step. The figure is a fixed grid of 9 x 5 = 45
  axes, all switched off first. The first \<open>min (number of classes) 45\<close> axes show, in class
  order, the confusion matrix of their class without a colour bar, titled with the first
  20 characters of the class name; the other axes stay blank. Classes after the 45th get
  no subplot.
\<close>

theorem log_metrics_figure:
  assumes "class_names s = Some names" and "length (conf_mats m) = length names"
  shows "\<exists>s' fig. log_metrics s m split = Inr s' \<and>
           figures s' = figures s @ [(''confusion matrix/'' @ split, fig, global_step s)] \<and>
           length fig = 45 \<and>
           (\<forall>i < min (length names) 45.
              fig ! i = \<lparr>axis_on = False, image = Some (conf_mats m ! i), colorbar = False,
                         title = take 20 (names ! i)\<rparr> \<and>
              length (title (fig ! i)) \<le> 20) \<and>
           (\<forall>i. min (length names) 45 \<le> i \<and> i < 45 \<longrightarrow>
              fig ! i = \<lparr>axis_on = False, image = None, colorbar = False, title = []\<rparr>)"
proof -
  define fig where "fig = plot_all (conf_mats m) names (map set_axis_off (subplots 9 5))"
  have len: "length fig = 45"
    by (simp add: fig_def length_plot_all length_grid)
  have drawn: "fig ! i = \<lparr>axis_on = False, image = Some (conf_mats m ! i), colorbar = False,
                         title = take 20 (names ! i)\<rparr>" if "i < min (length names) 45" for i
  proof -
    from that have "i < length (conf_mats m)" "i < length names"
      "i < length (map set_axis_off (subplots 9 5))" "i < 45"
      using assms(2) by (simp_all add: length_grid)
    from nth_plot_all [OF this(1,2,3)] nth_grid [OF this(4)]
    show ?thesis by (simp add: fig_def plot_class_def)
  qed
  have blank: "fig ! i = \<lparr>axis_on = False, image = None, colorbar = False, title = []\<rparr>"
    if "min (length names) 45 \<le> i" "i < 45" for i
  proof -
    from that have "min (length (conf_mats m)) (length names) \<le> i"
      using assms(2) by simp
    from nth_plot_all_rest [OF this] nth_grid [OF that(2)]
    show ?thesis by (simp add: fig_def)
  qed
  have run: "\<exists>s'. log_metrics s m split = Inr s' \<and>
      figures s' = figures s @ [(''confusion matrix/'' @ split, fig, global_step s)]"
    using assms(1)
    by (simp add: log_metrics_def get_class_names_def raise_at_def bind_err_def Let_def fig_def
        self_log_fields)
  from run obtain s' where "log_metrics s m split = Inr s'"
    "figures s' = figures s @ [(''confusion matrix/'' @ split, fig, global_step s)]"
    by blast
  with len drawn blank show ?thesis
    by (intro exI [of _ s'] exI [of _ fig] conjI) auto
qed

text \<open>Two classes, the first with a name of 23 characters.\<close>

theorem log_metrics_figure_witness:
  "\<exists>s' fig.
     log_metrics
       ((lit_model_init ''max'' ''f1_score'' [])
          \<lparr>class_names := Some [''Continuous urban fabric'', ''Pastures''], global_step := 7\<rparr>)
       \<lparr>precision = 1, recall = 2 / 3, f1_score = 4 / 5,
        conf_mats = [[[0, 0], [0, 2]], [[1, 0], [1, 0]]], report = [], loss = 0\<rparr>
       ''val'' = Inr s' \<and>
     figures s' = [(''confusion matrix/val'', fig, 7)] \<and>
     length fig = 45 \<and>
     fig ! 0 = \<lparr>axis_on = False, image = Some [[0, 0], [0, 2]], colorbar = False,
                title = ''Continuous urban fab''\<rparr> \<and>
     fig ! 1 = \<lparr>axis_on = False, image = Some [[1, 0], [1, 0]], colorbar = False,
                title = ''Pastures''\<rparr> \<and>
     fig ! 2 = \<lparr>axis_on = False, image = None, colorbar = False, title = []\<rparr>"
proof -
  let ?s = "(lit_model_init ''max'' ''f1_score'' [])
          \<lparr>class_names := Some [''Continuous urban fabric'', ''Pastures''], global_step := 7\<rparr>"
  let ?m = "\<lparr>precision = 1, recall = 2 / 3, f1_score = 4 / 5,
        conf_mats = [[[0, 0], [0, 2]], [[1, 0], [1, 0]]], report = [], loss = 0\<rparr>"
  from log_metrics_figure [of ?s "[''Continuous urban fabric'', ''Pastures'']" ?m "''val''"]
  obtain s' fig where a: "log_metrics ?s ?m ''val'' = Inr s'"
    "figures s' = [(''confusion matrix/val'', fig, 7)]" "length fig = 45"
    and b: "\<forall>i < 2. fig ! i = \<lparr>axis_on = False, image = Some ([[[0, 0], [0, 2]], [[1, 0], [1, 0]]] ! i),
                colorbar = False, title = take 20 ([''Continuous urban fabric'', ''Pastures''] ! i)\<rparr>"
    and c: "\<forall>i. 2 \<le> i \<and> i < 45 \<longrightarrow>
              fig ! i = \<lparr>axis_on = False, image = None, colorbar = False, title = []\<rparr>"
    by (auto simp: lit_model_init_def)
  from b [rule_format, of 0] b [rule_format, of 1] c [rule_format, of 2]
  have "fig ! 0 = \<lparr>axis_on = False, image = Some [[0, 0], [0, 2]], colorbar = False,
                title = ''Continuous urban fab''\<rparr>"
    "fig ! 1 = \<lparr>axis_on = False, image = Some [[1, 0], [1, 0]], colorbar = False,
                title = ''Pastures''\<rparr>"
    "fig ! 2 = \<lparr>axis_on = False, image = None, colorbar = False, title = []\<rparr>"
    by simp_all
  with a show ?thesis by blast
qed

text \<open>
  C9 as the spec words it wants a subplot for every class. With 46 classes the figure
  still has 45 axes, so the last class is not drawn.
\<close>

theorem log_metrics_figure_counterexample:
  "map_sum id (map (length \<circ> fst \<circ> snd) \<circ> figures)
     (log_metrics
        ((lit_model_init ''max'' ''f1_score'' [])
           \<lparr>class_names := Some (replicate 46 ''Pastures'')\<rparr>)
        \<lparr>precision = 1, recall = 1, f1_score = 1,
         conf_mats = replicate 46 [[1, 0], [0, 1]], report = [], loss = 0\<rparr>
        ''val'')
   = Inr [45]"
  by (simp add: log_metrics_def get_class_names_def raise_at_def bind_err_def Let_def
      lit_model_init_def self_log_def
      length_plot_all length_grid)

section \<open>Epoch aggregation: thresholding, gathering, counting\<close>

text \<open>
  Over the reals the threshold on the sigmoid is the sign of the logit, and the predictions
  the loop gathers are the predictions of the specification.
\<close>

lemma sigmoid_gt_half: "sigmoid x > 0.5 \<longleftrightarrow> 0 < x"
proof -
  have pos: "0 < 1 + exp (- x)" by (simp add: add_pos_pos)
  have "sigmoid x > 0.5 \<longleftrightarrow> 1 + exp (- x) < 2"
    unfolding sigmoid_def using pos by (simp add: field_simps)
  also have "\<dots> \<longleftrightarrow> exp (- x) < exp 0" by simp
  also have "\<dots> \<longleftrightarrow> 0 < x" by (simp only: exp_less_cancel_iff) simp
  finally show ?thesis .
qed

lemma threshold_spec:
  "concat (map (threshold \<circ> out_logits) outs) = spec_predictions outs"
  by (simp only: threshold_def sigmoid_def spec_predictions_def comp_def)

lemma spec_predictions_sign:
  "spec_predictions outs = concat (map (\<lambda>out. map (map (\<lambda>x. 0 < x)) (out_logits out)) outs)"
  using threshold_spec [of outs, symmetric]
  by (simp only: threshold_def sigmoid_gt_half comp_def)

lemma gather_eq:
  "gather outs ts ps ls =
     (ts @ concat (map out_targets outs),
      ps @ concat (map (threshold \<circ> out_logits) outs),
      ls @ map out_loss outs)"
  by (induction outs arbitrary: ts ps ls) (simp_all add: Let_def)

lemma gather_spec:
  "gather outs [] [] [] = (spec_targets outs, spec_predictions outs, map out_loss outs)"
  by (simp add: gather_eq threshold_spec spec_targets_def)

lemma check_targets_multilabel:
  "check_targets y_true y_pred = Inr (MultilabelIndicator c) \<longleftrightarrow>
     length y_true = length y_pred \<and> y_true \<noteq> [] \<and>
     (\<forall>r \<in> set y_true. length r = c) \<and> (\<forall>r \<in> set y_pred. length r = c) \<and> 2 \<le> c"
proof (cases y_true)
  case Nil
  then show ?thesis by (simp add: check_targets_def)
next
  case (Cons a list)
  have "2 \<le> length a \<longleftrightarrow> length a \<noteq> 0 \<and> length a \<noteq> 1" by arith
  then show ?thesis
    unfolding Cons by (auto simp: check_targets_def Let_def list_all_iff)
qed

lemma check_targets_binary:
  assumes "check_targets y_true y_pred = Inr Binary"
  shows "length y_true = length y_pred"
    and "\<forall>r \<in> set y_true. length r = 1" and "\<forall>r \<in> set y_pred. length r = 1"
  using assms
  by (cases y_true; auto simp: check_targets_def Let_def list_all_iff split: if_splits)+

lemma check_targets_error: "check_targets y_true y_pred = Inl e \<Longrightarrow> e = ValueError"
  by (cases y_true) (auto simp: check_targets_def Let_def split: if_splits)

lemma label_counts_error: "label_counts y_true y_pred = Inl e \<Longrightarrow> e = ValueError"
  by (cases "check_targets y_true y_pred")
     (auto simp: label_counts_def bind_err_def Let_def dest: check_targets_error
       split: target_type.splits)

text \<open>
  Counting per label column and summing over the columns is counting over all pairs of a
  sample and a class.
\<close>

lemma count_split:
  "length (filter P xs) =
     length (filter (\<lambda>x. R x \<and> P x) xs) + length (filter (\<lambda>x. \<not> R x \<and> P x) xs)"
  by (induction xs) auto

lemma sum_of_bool_filter:
  "(\<Sum>x\<leftarrow>xs. if P x then 1 else 0) = length (filter P xs)"
  by (induction xs) auto

lemma row_count:
  assumes "length t = c" and "length p = c"
  shows "(\<Sum>j\<leftarrow>[0..<c]. if Q (t ! j) (p ! j) then 1 else 0) =
         length (filter (\<lambda>(a, b). Q a b) (zip t p))"
proof -
  have z: "zip t p = map (\<lambda>j. (t ! j, p ! j)) [0..<c]"
    using assms by (intro nth_equalityI) simp_all
  show ?thesis
    unfolding z by (simp add: sum_of_bool_filter filter_map comp_def)
qed

lemma column_counts_sum:
  assumes "length y_true = length y_pred"
    and "\<forall>r \<in> set y_true. length r = c" and "\<forall>r \<in> set y_pred. length r = c"
  shows "(\<Sum>j\<leftarrow>[0..<c]. length (filter (\<lambda>(t, p). Q (t ! j) (p ! j)) (zip y_true y_pred))) =
         length (filter (\<lambda>(a, b). Q a b) (class_sample_pairs y_true y_pred))"
  using assms
proof (induction y_true y_pred rule: list_induct2)
  case Nil
  then show ?case by (simp add: class_sample_pairs_def)
next
  case (Cons t ts p ps)
  have rows: "length t = c" "length p = c" using Cons.prems by simp_all
  have IH: "(\<Sum>j\<leftarrow>[0..<c]. length (filter (\<lambda>(t, p). Q (t ! j) (p ! j)) (zip ts ps))) =
         length (filter (\<lambda>(a, b). Q a b) (class_sample_pairs ts ps))"
    using Cons by simp
  have "(\<Sum>j\<leftarrow>[0..<c]. length (filter (\<lambda>(t, p). Q (t ! j) (p ! j)) (zip (t # ts) (p # ps)))) =
        (\<Sum>j\<leftarrow>[0..<c]. (if Q (t ! j) (p ! j) then 1 else 0) +
            length (filter (\<lambda>(t, p). Q (t ! j) (p ! j)) (zip ts ps)))"
    by (intro arg_cong [where f = sum_list] map_cong) auto
  also have "\<dots> = (\<Sum>j\<leftarrow>[0..<c]. if Q (t ! j) (p ! j) then 1 else 0) +
        (\<Sum>j\<leftarrow>[0..<c]. length (filter (\<lambda>(t, p). Q (t ! j) (p ! j)) (zip ts ps)))"
    by (simp add: sum_list_addf)
  also have "\<dots> = length (filter (\<lambda>(a, b). Q a b) (zip t p)) +
        length (filter (\<lambda>(a, b). Q a b) (class_sample_pairs ts ps))"
    by (simp only: row_count [OF rows] IH)
  finally show ?case by (simp add: class_sample_pairs_def)
qed

lemma pred_sum_zip:
  "length y_true = length y_pred \<Longrightarrow>
   predicted_sum y_pred j = length (filter (\<lambda>(t, p). p ! j) (zip y_true y_pred))"
  by (induction y_true y_pred rule: list_induct2) (simp_all add: predicted_sum_def)

lemma true_sum_zip:
  "length y_true = length y_pred \<Longrightarrow>
   true_sum y_true j = length (filter (\<lambda>(t, p). t ! j) (zip y_true y_pred))"
  by (induction y_true y_pred rule: list_induct2) (simp_all add: true_sum_def)

lemma micro_sums:
  assumes "length y_true = length y_pred"
    and "\<forall>r \<in> set y_true. length r = c" and "\<forall>r \<in> set y_pred. length r = c"
  shows "sum_list (map (tp_sum y_true y_pred) [0..<c]) = spec_tp y_true y_pred"
    and "sum_list (map (predicted_sum y_pred) [0..<c]) = spec_tp y_true y_pred + spec_fp y_true y_pred"
    and "sum_list (map (true_sum y_true) [0..<c]) = spec_tp y_true y_pred + spec_fn y_true y_pred"
proof -
  show "sum_list (map (tp_sum y_true y_pred) [0..<c]) = spec_tp y_true y_pred"
    using column_counts_sum [OF assms, of "\<lambda>a b. a \<and> b"]
    by (simp add: tp_sum_def [abs_def] spec_tp_def)
  have "sum_list (map (predicted_sum y_pred) [0..<c]) =
      length (filter (\<lambda>(a, b). b) (class_sample_pairs y_true y_pred))"
    using column_counts_sum [OF assms, of "\<lambda>a b. b"]
    by (simp add: pred_sum_zip [OF assms(1), abs_def])
  also have "\<dots> = spec_tp y_true y_pred + spec_fp y_true y_pred"
    unfolding spec_tp_def spec_fp_def
    by (subst count_split [where R = "\<lambda>(a, b). a"]) (simp add: case_prod_unfold)
  finally show "sum_list (map (predicted_sum y_pred) [0..<c]) = spec_tp y_true y_pred + spec_fp y_true y_pred" .
  have "sum_list (map (true_sum y_true) [0..<c]) =
      length (filter (\<lambda>(a, b). a) (class_sample_pairs y_true y_pred))"
    using column_counts_sum [OF assms, of "\<lambda>a b. a"]
    by (simp add: true_sum_zip [OF assms(1), abs_def])
  also have "\<dots> = spec_tp y_true y_pred + spec_fn y_true y_pred"
    unfolding spec_tp_def spec_fn_def
    by (subst count_split [where R = "\<lambda>(a, b). b"]) (simp add: case_prod_unfold conj_commute)
  finally show "sum_list (map (true_sum y_true) [0..<c]) = spec_tp y_true y_pred + spec_fn y_true y_pred" .
qed






text \<open>When \<^verbatim>\<open>_generic_epoch_end\<close> returns, and what it returns then.\<close>

lemma generic_epoch_end_Inr:
  assumes "generic_epoch_end s outs = Inr m"
  obtains counts names where
    "label_counts (spec_targets outs) (spec_predictions outs) = Inr counts" "outs \<noteq> []"
    "class_names s = Some names" "length names = length counts" "names \<noteq> []"
    "m = \<lparr>precision = fst (micro_scores counts),
          recall = fst (snd (micro_scores counts)),
          f1_score = snd (snd (micro_scores counts)),
          conf_mats = map (label_conf_mat (length (spec_targets outs))) counts,
          report = map2 label_row names counts,
          loss = sum_list (map out_loss outs) / real (length outs)\<rparr>"
proof (cases "label_counts (spec_targets outs) (spec_predictions outs)")
  case (Inl e)
  with assms show ?thesis
    by (simp add: generic_epoch_end_def gather_spec precision_recall_fscore_support_def
        bind_err_def)
next
  case (Inr counts)
  with assms show ?thesis
    by (intro that [of counts "the (class_names s)"])
       (auto simp: generic_epoch_end_def gather_spec precision_recall_fscore_support_def
          multilabel_confusion_matrix_def classification_report_def mean_loss_def
          get_class_names_def bind_err_def
          split: if_splits option.splits prod.splits)
qed

lemma generic_epoch_end_ok:
  assumes "label_counts (spec_targets outs) (spec_predictions outs) = Inr counts"
    and "outs \<noteq> []" and "class_names s = Some names"
    and "length names = length counts" and "names \<noteq> []"
  shows "generic_epoch_end s outs =
     Inr \<lparr>precision = fst (micro_scores counts),
          recall = fst (snd (micro_scores counts)),
          f1_score = snd (snd (micro_scores counts)),
          conf_mats = map (label_conf_mat (length (spec_targets outs))) counts,
          report = map2 label_row names counts,
          loss = sum_list (map out_loss outs) / real (length outs)\<rparr>"
  using assms
  by (simp add: generic_epoch_end_def gather_spec precision_recall_fscore_support_def
      multilabel_confusion_matrix_def classification_report_def mean_loss_def
      get_class_names_def bind_err_def split: prod.splits)

lemma upt_0_2: "[0..<Suc (Suc 0)] = [0, Suc 0]"
  by simp

lemma label_counts_multilabel:
  "check_targets y_true y_pred = Inr (MultilabelIndicator c) \<Longrightarrow>
   label_counts y_true y_pred =
     Inr (map (\<lambda>j. (tp_sum y_true y_pred j, predicted_sum y_pred j, true_sum y_true j)) [0..<c])"
  by (simp add: label_counts_def bind_err_def)

lemma wide_is_multilabel:
  assumes "label_counts y_true y_pred = Inr counts" and "counts \<noteq> []"
    and "\<forall>r \<in> set y_true. 2 \<le> length r"
  obtains c where "check_targets y_true y_pred = Inr (MultilabelIndicator c)"
proof (cases "check_targets y_true y_pred")
  case (Inl e)
  with assms(1) show ?thesis by (simp add: label_counts_def bind_err_def)
next
  case (Inr y_type)
  show ?thesis
  proof (cases y_type)
    case Binary
    have "y_true = []"
    proof (rule ccontr)
      assume "y_true \<noteq> []"
      then obtain r where r: "r \<in> set y_true" by (cases y_true) auto
      with check_targets_binary(2) [OF Inr [unfolded Binary]] have "length r = 1" by blast
      with assms(3) r show False by fastforce
    qed
    moreover from check_targets_binary(1) [OF Inr [unfolded Binary]] this
    have "y_pred = []" by simp
    ultimately have "counts = []"
      using assms(1) Inr Binary
      by (simp add: label_counts_def bind_err_def unique_labels_def)
    with assms(2) show ?thesis by simp
  next
    case (MultilabelIndicator c)
    with Inr that show ?thesis by blast
  qed
qed

lemma harmonic_mean:
  fixes A b c :: real
  assumes "0 < A" and "0 < b" and "0 < c"
  shows "2 * (A / b) * (A / c) / (A / b + A / c) = 2 * A / (b + c)"
proof -
  define p q where "p = A / b" and "q = A / c"
  have pq: "0 < p" "0 < q" using assms by (simp_all add: p_def q_def)
  have pb: "p * b = A" and qc: "q * c = A" using assms by (simp_all add: p_def q_def)
  have "2 * p * q * (b + c) = 2 * q * (p * b) + 2 * p * (q * c)"
    by (simp add: algebra_simps)
  also have "\<dots> = 2 * A * (p + q)"
    by (simp only: pb qc) (simp add: algebra_simps)
  finally have "2 * p * q * (b + c) = 2 * A * (p + q)" .
  moreover have "p + q \<noteq> 0" "b + c \<noteq> 0" using pq assms by simp_all
  ultimately have "2 * p * q / (p + q) = 2 * A / (b + c)"
    by (simp add: frac_eq_eq)
  then show ?thesis by (simp add: p_def q_def)
qed

lemma f_score_counts:
  "f_score (prf_divide a (a + x)) (prf_divide a (a + y)) = spec_ratio (2 * a) (2 * a + x + y)"
proof (cases "a = 0")
  case True
  then show ?thesis by (simp add: f_score_def prf_divide_def spec_ratio_def)
next
  case False
  then have a: "0 < real a" by simp
  then have pos: "0 < real a + real x" "0 < real a + real y"
    by (simp_all add: add_pos_nonneg)
  have "0 < real a / (real a + real x)" "0 < real a / (real a + real y)"
    using a pos by simp_all
  then have sum_pos: "real a / (real a + real x) + real a / (real a + real y) \<noteq> 0"
    using add_pos_pos by fastforce
  have "2 * (real a / (real a + real x)) * (real a / (real a + real y))
          / (real a / (real a + real x) + real a / (real a + real y))
        = 2 * real a / ((real a + real x) + (real a + real y))"
    using a pos by (rule harmonic_mean)
  also have "(real a + real x) + (real a + real y) = 2 * real a + real x + real y"
    by simp
  finally show ?thesis
    using False sum_pos by (simp add: f_score_def prf_divide_def spec_ratio_def)
qed

lemma micro_scores_multilabel:
  assumes "length y_true = length y_pred"
    and "\<forall>r \<in> set y_true. length r = c" and "\<forall>r \<in> set y_pred. length r = c"
  shows "micro_scores
           (map (\<lambda>j. (tp_sum y_true y_pred j, predicted_sum y_pred j, true_sum y_true j)) [0..<c]) =
         (spec_ratio (spec_tp y_true y_pred) (spec_tp y_true y_pred + spec_fp y_true y_pred),
          spec_ratio (spec_tp y_true y_pred) (spec_tp y_true y_pred + spec_fn y_true y_pred),
          spec_ratio (2 * spec_tp y_true y_pred)
            (2 * spec_tp y_true y_pred + spec_fp y_true y_pred + spec_fn y_true y_pred))"
proof -
  have sums:
    "(\<Sum>j\<leftarrow>[0..<c]. tp_sum y_true y_pred j) = spec_tp y_true y_pred"
    "(\<Sum>j\<leftarrow>[0..<c]. predicted_sum y_pred j) = spec_tp y_true y_pred + spec_fp y_true y_pred"
    "(\<Sum>j\<leftarrow>[0..<c]. true_sum y_true j) = spec_tp y_true y_pred + spec_fn y_true y_pred"
    using micro_sums [OF assms] by simp_all
  have ratio: "prf_divide a b = spec_ratio a b" for a b
    by (simp add: prf_divide_def spec_ratio_def)
  show ?thesis
    by (simp add: micro_scores_def Let_def comp_def sums f_score_counts)
       (simp add: ratio)
qed

lemma degenerate_counts:
  assumes "\<forall>r \<in> set y_true. \<not> r ! j" and "\<forall>r \<in> set y_pred. \<not> r ! j"
  shows "tp_sum y_true y_pred j = 0" "predicted_sum y_pred j = 0" "true_sum y_true j = 0"
proof -
  show "predicted_sum y_pred j = 0" "true_sum y_true j = 0"
    using assms by (simp_all add: predicted_sum_def true_sum_def filter_empty_conv)
  have "\<forall>x \<in> set (zip y_true y_pred). \<not> (case x of (t, p) \<Rightarrow> t ! j \<and> p ! j)"
    using assms(1) by (auto dest: set_zip_leftD)
  then show "tp_sum y_true y_pred j = 0"
    by (simp add: tp_sum_def filter_empty_conv)
qed

lemma shapes_check:
  assumes "2 \<le> c"
    and "\<forall>out \<in> set outs. length (out_targets out) = length (out_logits out) \<and>
           (\<forall>r \<in> set (out_targets out). length r = c) \<and>
           (\<forall>r \<in> set (out_logits out). length r = c)"
    and "\<exists>out \<in> set outs. out_targets out \<noteq> []"
  shows "check_targets (spec_targets outs) (spec_predictions outs) = Inr (MultilabelIndicator c)"
proof -
  have "map (length \<circ> out_targets) outs = map (length \<circ> (threshold \<circ> out_logits)) outs"
    using assms(2) by (simp add: threshold_def)
  then have "sum_list (map (length \<circ> out_targets) outs) =
      sum_list (map (length \<circ> (threshold \<circ> out_logits)) outs)"
    by (rule arg_cong)
  then have "length (concat (map out_targets outs)) =
      length (concat (map (threshold \<circ> out_logits) outs))"
    by (simp only: length_concat map_map)
  moreover have "concat (map out_targets outs) \<noteq> []"
    using assms(3) by auto
  moreover have "\<forall>r \<in> set (concat (map out_targets outs)). length r = c"
    using assms(2) by auto
  moreover have "\<forall>r \<in> set (concat (map (threshold \<circ> out_logits) outs)). length r = c"
    using assms(2) by (auto simp: threshold_def)
  ultimately show ?thesis
    using assms(1)
    unfolding threshold_spec [symmetric] spec_targets_def
    by (simp only: check_targets_multilabel) simp
qed

text \<open>
  The example of the specification, as two batches of one sample each: targets
  \<open>[[1,0],[1,1]]\<close>, logits whose thresholding gives the predictions \<open>[[1,0],[0,1]]\<close>. In
  the second version the logits lie next to the threshold: 0.2 and 0.3 are predicted 1
  although they are below 0.5, and the logit 0, whose sigmoid is 0.5 exactly, is
  predicted 0.
\<close>

lemma example_run:
  "generic_epoch_end
     ((lit_model_init ''max'' ''f1_score'' [])\<lparr>class_names := Some [''Airports'', ''Pastures'']\<rparr>)
     [\<lparr>out_loss = 0.2, out_targets = [[True, False]], out_logits = [[2, -1]]\<rparr>,
      \<lparr>out_loss = 0.4, out_targets = [[True, True]], out_logits = [[-3, 1]]\<rparr>]
   = Inr \<lparr>precision = 1, recall = 2 / 3, f1_score = 4 / 5,
          conf_mats = [[[0, 0], [1, 1]], [[1, 0], [0, 1]]],
          report = [\<lparr>row_label = ''Airports'', row_precision = 1, row_recall = 1 / 2,
                     row_f1 = 2 / 3, row_support = 2\<rparr>,
                    \<lparr>row_label = ''Pastures'', row_precision = 1, row_recall = 1,
                     row_f1 = 1, row_support = 1\<rparr>],
          loss = 3 / 10\<rparr>"
proof -
  let ?s = "(lit_model_init ''max'' ''f1_score'' [])\<lparr>class_names := Some [''Airports'', ''Pastures'']\<rparr>"
  let ?outs = "[\<lparr>out_loss = 0.2, out_targets = [[True, False]], out_logits = [[2, -1]]\<rparr>,
      \<lparr>out_loss = 0.4, out_targets = [[True, True]], out_logits = [[-3, 1]]\<rparr>]"
  have yt: "spec_targets ?outs = [[True, False], [True, True]]"
    by (simp add: spec_targets_def)
  have yp: "spec_predictions ?outs = [[True, False], [False, True]]"
    by (simp add: spec_predictions_sign)
  have counts: "label_counts (spec_targets ?outs) (spec_predictions ?outs) =
      Inr [(1, 1, 2), (1, 1, 1)]"
    unfolding yt yp
    by (simp add: label_counts_def check_targets_def bind_err_def Let_def upt_0_2
        tp_sum_def predicted_sum_def true_sum_def)
  have "?outs \<noteq> []" "class_names ?s = Some [''Airports'', ''Pastures'']"
    "length [''Airports'', ''Pastures''] = length [(1::nat, 1::nat, 2::nat), (1, 1, 1)]"
    "[''Airports'', ''Pastures''] \<noteq> []"
    by simp_all
  from generic_epoch_end_ok [OF counts this]
  show ?thesis
    by (simp add: spec_targets_def micro_scores_def prf_divide_def f_score_def
        label_conf_mat_def label_row_def Let_def)
qed

lemma example_run_near_threshold:
  "generic_epoch_end
     ((lit_model_init ''max'' ''f1_score'' [])\<lparr>class_names := Some [''Airports'', ''Pastures'']\<rparr>)
     [\<lparr>out_loss = 0.2, out_targets = [[True, False]], out_logits = [[0.2, 0]]\<rparr>,
      \<lparr>out_loss = 0.4, out_targets = [[True, True]], out_logits = [[-3, 0.3]]\<rparr>]
   = Inr \<lparr>precision = 1, recall = 2 / 3, f1_score = 4 / 5,
          conf_mats = [[[0, 0], [1, 1]], [[1, 0], [0, 1]]],
          report = [\<lparr>row_label = ''Airports'', row_precision = 1, row_recall = 1 / 2,
                     row_f1 = 2 / 3, row_support = 2\<rparr>,
                    \<lparr>row_label = ''Pastures'', row_precision = 1, row_recall = 1,
                     row_f1 = 1, row_support = 1\<rparr>],
          loss = 3 / 10\<rparr>"
proof -
  let ?s = "(lit_model_init ''max'' ''f1_score'' [])\<lparr>class_names := Some [''Airports'', ''Pastures'']\<rparr>"
  let ?outs = "[\<lparr>out_loss = 0.2, out_targets = [[True, False]], out_logits = [[0.2, 0]]\<rparr>,
      \<lparr>out_loss = 0.4, out_targets = [[True, True]], out_logits = [[-3, 0.3]]\<rparr>]"
  have yt: "spec_targets ?outs = [[True, False], [True, True]]"
    by (simp add: spec_targets_def)
  have yp: "spec_predictions ?outs = [[True, False], [False, True]]"
    by (simp add: spec_predictions_sign)
  have counts: "label_counts (spec_targets ?outs) (spec_predictions ?outs) =
      Inr [(1, 1, 2), (1, 1, 1)]"
    unfolding yt yp
    by (simp add: label_counts_def check_targets_def bind_err_def Let_def upt_0_2
        tp_sum_def predicted_sum_def true_sum_def)
  have "?outs \<noteq> []" "class_names ?s = Some [''Airports'', ''Pastures'']"
    "length [''Airports'', ''Pastures''] = length [(1::nat, 1::nat, 2::nat), (1, 1, 1)]"
    "[''Airports'', ''Pastures''] \<noteq> []"
    by simp_all
  from generic_epoch_end_ok [OF counts this]
  show ?thesis
    by (simp add: spec_targets_def micro_scores_def prf_divide_def f_score_def
        label_conf_mat_def label_row_def Let_def)
qed

text \<open>
  One label column, all targets and all predictions 0. sklearn reads the column as a
  binary target whose only label is the value 0.
\<close>

lemma single_class_run:
  "generic_epoch_end
     ((lit_model_init ''max'' ''f1_score'' [])\<lparr>class_names := Some [''Airports'']\<rparr>)
     [\<lparr>out_loss = 0.2, out_targets = [[False]], out_logits = [[-1]]\<rparr>,
      \<lparr>out_loss = 0.4, out_targets = [[False]], out_logits = [[-2]]\<rparr>]
   = Inr \<lparr>precision = 1, recall = 1, f1_score = 1,
          conf_mats = [[[0, 0], [0, 2]]],
          report = [\<lparr>row_label = ''Airports'', row_precision = 1, row_recall = 1,
                     row_f1 = 1, row_support = 2\<rparr>],
          loss = 3 / 10\<rparr>"
proof -
  let ?s = "(lit_model_init ''max'' ''f1_score'' [])\<lparr>class_names := Some [''Airports'']\<rparr>"
  let ?outs = "[\<lparr>out_loss = 0.2, out_targets = [[False]], out_logits = [[-1]]\<rparr>,
      \<lparr>out_loss = 0.4, out_targets = [[False]], out_logits = [[-2]]\<rparr>]"
  have yt: "spec_targets ?outs = [[False], [False]]"
    by (simp add: spec_targets_def)
  have yp: "spec_predictions ?outs = [[False], [False]]"
    by (simp add: spec_predictions_sign)
  have counts: "label_counts (spec_targets ?outs) (spec_predictions ?outs) = Inr [(2, 2, 2)]"
    unfolding yt yp
    by (simp add: label_counts_def check_targets_def bind_err_def Let_def unique_labels_def
        tp_bin_def predicted_bin_def true_bin_def)
  have "?outs \<noteq> []" "class_names ?s = Some [''Airports'']"
    "length [''Airports''] = length [(2::nat, 2::nat, 2::nat)]" "[''Airports''] \<noteq> []"
    by simp_all
  from generic_epoch_end_ok [OF counts this]
  show ?thesis
    by (simp add: spec_targets_def micro_scores_def prf_divide_def f_score_def
        label_conf_mat_def label_row_def Let_def)
qed

section \<open>Epoch aggregation: the claims\<close>

text \<open>
  C5, as the code has it. When the label rows have two or more columns, every bundle
  \<^verbatim>\<open>_generic_epoch_end\<close> returns has the micro averages of the specification: with the
  predictions \<open>sigmoid(logit) > 0.5\<close> and the true positives, false positives and false
  negatives counted over all pairs of a sample and a class of the whole epoch, precision
  is \<open>tp / (tp + fp)\<close>, recall is \<open>tp / (tp + fn)\<close> and F1 is \<open>2 tp / (2 tp + fp + fn)\<close>,
  each 0 where its denominator is 0.
\<close>

theorem micro_average:
  assumes "generic_epoch_end s outs = Inr m"
    and "\<forall>r \<in> set (spec_targets outs). 2 \<le> length r"
  shows "precision m = spec_precision outs \<and> recall m = spec_recall outs \<and>
         f1_score m = spec_f1 outs"
proof -
  from assms(1) obtain counts names where
    counts: "label_counts (spec_targets outs) (spec_predictions outs) = Inr counts"
    and names: "length names = length counts" "names \<noteq> []"
    and m: "m = \<lparr>precision = fst (micro_scores counts),
          recall = fst (snd (micro_scores counts)),
          f1_score = snd (snd (micro_scores counts)),
          conf_mats = map (label_conf_mat (length (spec_targets outs))) counts,
          report = map2 label_row names counts,
          loss = sum_list (map out_loss outs) / real (length outs)\<rparr>"
    by (rule generic_epoch_end_Inr)
  from names have ne: "counts \<noteq> []" by auto
  from counts ne assms(2) obtain c where
    c: "check_targets (spec_targets outs) (spec_predictions outs) = Inr (MultilabelIndicator c)"
    by (rule wide_is_multilabel)
  then have shape: "length (spec_targets outs) = length (spec_predictions outs)"
    "\<forall>r \<in> set (spec_targets outs). length r = c"
    "\<forall>r \<in> set (spec_predictions outs). length r = c"
    by (simp_all add: check_targets_multilabel)
  from counts label_counts_multilabel [OF c]
  have "micro_scores counts =
      (spec_ratio (spec_tp (spec_targets outs) (spec_predictions outs))
         (spec_tp (spec_targets outs) (spec_predictions outs) +
          spec_fp (spec_targets outs) (spec_predictions outs)),
       spec_ratio (spec_tp (spec_targets outs) (spec_predictions outs))
         (spec_tp (spec_targets outs) (spec_predictions outs) +
          spec_fn (spec_targets outs) (spec_predictions outs)),
       spec_ratio (2 * spec_tp (spec_targets outs) (spec_predictions outs))
         (2 * spec_tp (spec_targets outs) (spec_predictions outs) +
          spec_fp (spec_targets outs) (spec_predictions outs) +
          spec_fn (spec_targets outs) (spec_predictions outs)))"
    using micro_scores_multilabel [OF shape] by simp
  then show ?thesis
    by (simp add: m spec_precision_def spec_recall_def spec_f1_def Let_def)
qed

text \<open>
  On the example of the specification, with logits next to the threshold, the predictions
  are \<open>[[1,0],[0,1]]\<close> and the bundle has precision 1, recall 2/3 and F1 4/5.
\<close>

theorem micro_average_witness:
  "generic_epoch_end
     ((lit_model_init ''max'' ''f1_score'' [])\<lparr>class_names := Some [''Airports'', ''Pastures'']\<rparr>)
     [\<lparr>out_loss = 0.2, out_targets = [[True, False]], out_logits = [[0.2, 0]]\<rparr>,
      \<lparr>out_loss = 0.4, out_targets = [[True, True]], out_logits = [[-3, 0.3]]\<rparr>]
   = Inr \<lparr>precision = 1, recall = 2 / 3, f1_score = 4 / 5,
          conf_mats = [[[0, 0], [1, 1]], [[1, 0], [0, 1]]],
          report = [\<lparr>row_label = ''Airports'', row_precision = 1, row_recall = 1 / 2,
                     row_f1 = 2 / 3, row_support = 2\<rparr>,
                    \<lparr>row_label = ''Pastures'', row_precision = 1, row_recall = 1,
                     row_f1 = 1, row_support = 1\<rparr>],
          loss = 3 / 10\<rparr> \<and>
   spec_targets
     [\<lparr>out_loss = 0.2, out_targets = [[True, False]], out_logits = [[0.2, 0]]\<rparr>,
      \<lparr>out_loss = 0.4, out_targets = [[True, True]], out_logits = [[-3, 0.3]]\<rparr>]
     = [[True, False], [True, True]] \<and>
   spec_predictions
     [\<lparr>out_loss = 0.2, out_targets = [[True, False]], out_logits = [[0.2, 0]]\<rparr>,
      \<lparr>out_loss = 0.4, out_targets = [[True, True]], out_logits = [[-3, 0.3]]\<rparr>]
     = [[True, False], [False, True]] \<and>
   spec_precision
     [\<lparr>out_loss = 0.2, out_targets = [[True, False]], out_logits = [[0.2, 0]]\<rparr>,
      \<lparr>out_loss = 0.4, out_targets = [[True, True]], out_logits = [[-3, 0.3]]\<rparr>] = 1 \<and>
   spec_recall
     [\<lparr>out_loss = 0.2, out_targets = [[True, False]], out_logits = [[0.2, 0]]\<rparr>,
      \<lparr>out_loss = 0.4, out_targets = [[True, True]], out_logits = [[-3, 0.3]]\<rparr>] = 2 / 3 \<and>
   spec_f1
     [\<lparr>out_loss = 0.2, out_targets = [[True, False]], out_logits = [[0.2, 0]]\<rparr>,
      \<lparr>out_loss = 0.4, out_targets = [[True, True]], out_logits = [[-3, 0.3]]\<rparr>] = 4 / 5"
proof -
  let ?outs = "[\<lparr>out_loss = 0.2, out_targets = [[True, False]], out_logits = [[0.2, 0]]\<rparr>,
      \<lparr>out_loss = 0.4, out_targets = [[True, True]], out_logits = [[-3, 0.3]]\<rparr>]"
  have yt: "spec_targets ?outs = [[True, False], [True, True]]"
    by (simp add: spec_targets_def)
  have yp: "spec_predictions ?outs = [[True, False], [False, True]]"
    by (simp add: spec_predictions_sign)
  have wide: "\<forall>r \<in> set (spec_targets ?outs). 2 \<le> length r"
    by (simp add: spec_targets_def)
  from micro_average [OF example_run_near_threshold wide] example_run_near_threshold yt yp
  show ?thesis by simp
qed

text \<open>
  C5 as the spec words it covers every epoch. With a single label column sklearn scores
  a binary target: for one class that no sample has and none is predicted to have, the
  bundle has precision 1 and recall 1, where the counts over the pairs of a sample and a
  class are all 0 and the ratios of the specification are 0.
\<close>

theorem micro_average_single_class_counterexample:
  "map_sum id precision
     (generic_epoch_end
        ((lit_model_init ''max'' ''f1_score'' [])\<lparr>class_names := Some [''Airports'']\<rparr>)
        [\<lparr>out_loss = 0.2, out_targets = [[False]], out_logits = [[-1]]\<rparr>,
         \<lparr>out_loss = 0.4, out_targets = [[False]], out_logits = [[-2]]\<rparr>]) = Inr 1 \<and>
   spec_precision
     [\<lparr>out_loss = 0.2, out_targets = [[False]], out_logits = [[-1]]\<rparr>,
      \<lparr>out_loss = 0.4, out_targets = [[False]], out_logits = [[-2]]\<rparr>] = 0 \<and>
   map_sum id recall
     (generic_epoch_end
        ((lit_model_init ''max'' ''f1_score'' [])\<lparr>class_names := Some [''Airports'']\<rparr>)
        [\<lparr>out_loss = 0.2, out_targets = [[False]], out_logits = [[-1]]\<rparr>,
         \<lparr>out_loss = 0.4, out_targets = [[False]], out_logits = [[-2]]\<rparr>]) = Inr 1 \<and>
   spec_recall
     [\<lparr>out_loss = 0.2, out_targets = [[False]], out_logits = [[-1]]\<rparr>,
      \<lparr>out_loss = 0.4, out_targets = [[False]], out_logits = [[-2]]\<rparr>] = 0"
  using single_class_run
  by (simp add: spec_precision_def spec_recall_def spec_targets_def
      spec_predictions_sign spec_tp_def spec_fp_def spec_fn_def class_sample_pairs_def
      spec_ratio_def Let_def)



text \<open>
  C7, as the code has it. Take step outputs of a consistent shape with \<open>c\<close> label columns,
  at least two, as many class names, and at least one sample, and a class \<open>j\<close> whose
  targets and predictions are 0 on every sample. Then \<^verbatim>\<open>_generic_epoch_end\<close> returns a
  bundle, so nothing fails on the zero denominators; the confusion matrix of class \<open>j\<close> is
  \<open>[[N, 0], [0, 0]]\<close> for the \<open>N\<close> samples of the epoch, and the report line of class \<open>j\<close>
  has precision 0 and recall 0.
\<close>

theorem degenerate_class:
  assumes "outs \<noteq> []" and "class_names s = Some names" and "length names = c" and "2 \<le> c"
    and "\<forall>out \<in> set outs. length (out_targets out) = length (out_logits out) \<and>
           (\<forall>r \<in> set (out_targets out). length r = c) \<and>
           (\<forall>r \<in> set (out_logits out). length r = c)"
    and "\<exists>out \<in> set outs. out_targets out \<noteq> []"
    and "j < c"
    and "\<forall>r \<in> set (spec_targets outs). \<not> r ! j"
    and "\<forall>r \<in> set (spec_predictions outs). \<not> r ! j"
  shows "\<exists>m. generic_epoch_end s outs = Inr m \<and>
           conf_mats m ! j = [[sum_list (map (length \<circ> out_targets) outs), 0], [0, 0]] \<and>
           row_label (report m ! j) = names ! j \<and>
           row_precision (report m ! j) = 0 \<and>
           row_recall (report m ! j) = 0"
proof -
  define y_true where "y_true = spec_targets outs"
  define y_pred where "y_pred = spec_predictions outs"
  define counts where
    "counts = map (\<lambda>j. (tp_sum y_true y_pred j, predicted_sum y_pred j, true_sum y_true j)) [0..<c]"
  have chk: "check_targets y_true y_pred = Inr (MultilabelIndicator c)"
    unfolding y_true_def y_pred_def using assms(4,5,6) by (rule shapes_check)
  have lc: "label_counts (spec_targets outs) (spec_predictions outs) = Inr counts"
    using label_counts_multilabel [OF chk] by (simp add: counts_def y_true_def y_pred_def)
  have len: "length names = length counts" "names \<noteq> []"
    using assms(3,4) by (auto simp: counts_def)
  have zero: "counts ! j = (0, 0, 0)"
    using assms(7) degenerate_counts [OF assms(8,9)]
    by (simp add: counts_def y_true_def y_pred_def)
  have total: "length (spec_targets outs) = sum_list (map (length \<circ> out_targets) outs)"
    by (simp add: spec_targets_def length_concat comp_def)
  have j: "j < length counts" "j < length names"
    using assms(3,7) by (simp_all add: counts_def)
  from generic_epoch_end_ok [OF lc assms(1,2) len] j zero total
  show ?thesis
    by (simp add: label_conf_mat_def label_row_def prf_divide_def Let_def)
qed

text \<open>Two samples, neither labelled nor predicted as the second class.\<close>

theorem degenerate_class_witness:
  "\<exists>m. generic_epoch_end
     ((lit_model_init ''max'' ''f1_score'' [])\<lparr>class_names := Some [''Airports'', ''Pastures'']\<rparr>)
     [\<lparr>out_loss = 0.2, out_targets = [[True, False]], out_logits = [[2, -1]]\<rparr>,
      \<lparr>out_loss = 0.4, out_targets = [[True, False]], out_logits = [[-3, 0]]\<rparr>] = Inr m \<and>
   conf_mats m ! 1 = [[2, 0], [0, 0]] \<and>
   row_label (report m ! 1) = ''Pastures'' \<and>
   row_precision (report m ! 1) = 0 \<and>
   row_recall (report m ! 1) = 0"
  using degenerate_class
    [of "[\<lparr>out_loss = 0.2, out_targets = [[True, False]], out_logits = [[2, -1]]\<rparr>,
      \<lparr>out_loss = 0.4, out_targets = [[True, False]], out_logits = [[-3, 0]]\<rparr>]"
      "(lit_model_init ''max'' ''f1_score'' [])\<lparr>class_names := Some [''Airports'', ''Pastures'']\<rparr>"
      "[''Airports'', ''Pastures'']" 2 1]
  by (simp add: spec_targets_def spec_predictions_sign numeral_2_eq_2)

text \<open>
  C7 as the spec words it covers a single class too. For one class with two samples,
  targets and predictions all 0, the confusion matrix is \<open>[[0, 0], [0, 2]]\<close> and the report
  line has precision 1 and recall 1.
\<close>

theorem degenerate_single_class_counterexample:
  "map_sum id conf_mats
     (generic_epoch_end
        ((lit_model_init ''max'' ''f1_score'' [])\<lparr>class_names := Some [''Airports'']\<rparr>)
        [\<lparr>out_loss = 0.2, out_targets = [[False]], out_logits = [[-1]]\<rparr>,
         \<lparr>out_loss = 0.4, out_targets = [[False]], out_logits = [[-2]]\<rparr>])
     = Inr [[[0, 0], [0, 2]]] \<and>
   map_sum id (map row_precision \<circ> report)
     (generic_epoch_end
        ((lit_model_init ''max'' ''f1_score'' [])\<lparr>class_names := Some [''Airports'']\<rparr>)
        [\<lparr>out_loss = 0.2, out_targets = [[False]], out_logits = [[-1]]\<rparr>,
         \<lparr>out_loss = 0.4, out_targets = [[False]], out_logits = [[-2]]\<rparr>])
     = Inr [1] \<and>
   map_sum id (map row_recall \<circ> report)
     (generic_epoch_end
        ((lit_model_init ''max'' ''f1_score'' [])\<lparr>class_names := Some [''Airports'']\<rparr>)
        [\<lparr>out_loss = 0.2, out_targets = [[False]], out_logits = [[-1]]\<rparr>,
         \<lparr>out_loss = 0.4, out_targets = [[False]], out_logits = [[-2]]\<rparr>])
     = Inr [1]"
  using single_class_run by simp

text \<open>
  C10. For step outputs that are not empty the mean of the batch losses is defined, the
  aggregation never ends in a division by zero, and a returned bundle carries that mean as
  its loss. For no step outputs at all the aggregation ends in Python's
  \<^verbatim>\<open>ZeroDivisionError\<close> and returns no bundle.
\<close>

theorem mean_loss_needs_step_outputs:
  "(outs \<noteq> [] \<longrightarrow>
      mean_loss (map out_loss outs) = Inr (sum_list (map out_loss outs) / real (length outs)) \<and>
      generic_epoch_end s outs \<noteq> Inl ZeroDivisionError \<and>
      (\<forall>m. generic_epoch_end s outs = Inr m \<longrightarrow>
         loss m = sum_list (map out_loss outs) / real (length outs))) \<and>
   generic_epoch_end s [] = Inl ZeroDivisionError"
proof -
  have empty: "generic_epoch_end s [] = Inl ZeroDivisionError"
    by (simp add: generic_epoch_end_def precision_recall_fscore_support_def label_counts_def
        check_targets_def unique_labels_def mean_loss_def bind_err_def)
  have mean: "mean_loss (map out_loss outs) =
      Inr (sum_list (map out_loss outs) / real (length outs))" if "outs \<noteq> []"
    using that by (simp add: mean_loss_def)
  have no_div: "generic_epoch_end s outs \<noteq> Inl ZeroDivisionError" if "outs \<noteq> []"
  proof (cases "label_counts (spec_targets outs) (spec_predictions outs)")
    case (Inl e)
    then have "e = ValueError" by (rule label_counts_error)
    with Inl show ?thesis
      by (simp add: generic_epoch_end_def gather_spec precision_recall_fscore_support_def
          bind_err_def)
  next
    case (Inr counts)
    with that show ?thesis
      by (auto simp: generic_epoch_end_def gather_spec precision_recall_fscore_support_def
          multilabel_confusion_matrix_def classification_report_def mean_loss_def
          get_class_names_def bind_err_def
          split: if_splits option.splits prod.splits)
  qed
  have avg: "loss m = sum_list (map out_loss outs) / real (length outs)"
    if "generic_epoch_end s outs = Inr m" for m
    using that by (rule generic_epoch_end_Inr) simp
  from empty mean no_div avg show ?thesis by blast
qed

text \<open>The example has mean loss (0.2 + 0.4) / 2; the empty epoch fails.\<close>

theorem mean_loss_needs_step_outputs_witness:
  "\<exists>m. generic_epoch_end
     ((lit_model_init ''max'' ''f1_score'' [])\<lparr>class_names := Some [''Airports'', ''Pastures'']\<rparr>)
     [\<lparr>out_loss = 0.2, out_targets = [[True, False]], out_logits = [[2, -1]]\<rparr>,
      \<lparr>out_loss = 0.4, out_targets = [[True, True]], out_logits = [[-3, 1]]\<rparr>] = Inr m \<and>
     loss m = (0.2 + 0.4) / 2 \<and>
     generic_epoch_end
       ((lit_model_init ''max'' ''f1_score'' [])\<lparr>class_names := Some [''Airports'', ''Pastures'']\<rparr>)
       [] = Inl ZeroDivisionError"
  using mean_loss_needs_step_outputs
    [of "[\<lparr>out_loss = 0.2, out_targets = [[True, False]], out_logits = [[2, -1]]\<rparr>,
      \<lparr>out_loss = 0.4, out_targets = [[True, True]], out_logits = [[-3, 1]]\<rparr>]"
      "(lit_model_init ''max'' ''f1_score'' [])\<lparr>class_names := Some [''Airports'', ''Pastures'']\<rparr>"]
    example_run
  by simp

end
